theory Spec2Isabelle
  imports Complex_Main "HOL-Library.Word"
begin

section \<open>Data model\<close>

text \<open>
  The forum backend keeps four document collections (users, categories, threads, posts)
  in a document store and serves them through route handlers. Documents are records, a
  collection is the list of its documents in insertion order, and a handler is a function
  from the store and the request to a response and the store after the request.

  An ObjectId is a natural number. A date is a millisecond timestamp. The counters are
  JavaScript numbers that only ever change by \<open>$inc\<close> of 1 or -1, so they are integers
  (nothing in the code keeps them from going below zero). The store's own \<open>updatedAt\<close>
  timestamp is left out: no route reads it.

  The authentication middleware (middleware/auth.js) is not among the sources. A route
  behind \<open>authenticateToken\<close> takes the user it put in \<open>req.user\<close> as its \<open>actor\<close>; a
  route behind \<open>optionalAuth\<close> takes a \<open>user option\<close>, \<open>None\<close> for a request without a
  valid token.
\<close>

type_synonym oid = nat
type_synonym date = int

text \<open>
  A JavaScript string is a sequence of UTF-16 code units. The texts whose length the
  schemas bound or that they trim (titles, contents, tags) are such sequences, so that
  \<open>length\<close> is the \<open>length\<close> of the code and a white space character is one code
  unit. The strings that the routes only copy or compare for equality (names, roles,
  messages, the sort option) are plain strings.
\<close>

type_synonym jsstring = "16 word list"

text \<open>One element of a \<open>likes\<close> array (models/Thread.js, models/Post.js).\<close>

record like =
  like_user :: oid
  like_createdAt :: date

text \<open>One element of \<open>editHistory\<close> (models/Post.js).\<close>

record edit =
  edit_content :: jsstring
  edit_editedAt :: date

text \<open>The nested path \<open>lastReply\<close> of a thread; its \<open>author\<close> is unset until the first reply.\<close>

record lastReply =
  lr_author :: "oid option"
  lr_createdAt :: date

text \<open>models/Thread.js\<close>

record thread =
  t_id :: oid
  t_title :: jsstring
  t_content :: jsstring
  t_author :: oid
  t_category :: oid
  t_isPinned :: bool
  t_isLocked :: bool
  t_isActive :: bool
  t_views :: int
  t_replyCount :: int
  t_lastReply :: lastReply
  t_tags :: "jsstring list"
  t_likes :: "like list"
  t_createdAt :: date

text \<open>models/Post.js\<close>

record post =
  p_id :: oid
  p_content :: jsstring
  p_author :: oid
  p_thread :: oid
  p_parentPost :: "oid option"
  p_isActive :: bool
  p_likes :: "like list"
  p_isEdited :: bool
  p_editedAt :: "date option"
  p_editHistory :: "edit list"
  p_createdAt :: date

text \<open>models/Category.js\<close>

record category =
  c_id :: oid
  c_name :: string
  c_description :: string
  c_color :: string
  c_icon :: string
  c_isActive :: bool
  c_threadCount :: int
  c_postCount :: int
  c_order :: int
  c_createdAt :: date

text \<open>
  Modelled from the spec: models/User.js is not among the sources. The record holds the
  fields of a user that the thread and post routes read or write: the identity, the
  fields they select when populating an author (\<open>username avatar role postCount createdAt\<close>),
  with \<open>role\<close> one of \<open>user\<close> and \<open>admin\<close> and \<open>postCount\<close> the denormalized count of
  the threads and posts the user wrote.
\<close>

record user =
  u_id :: oid
  u_username :: string
  u_avatar :: string
  u_role :: string
  u_postCount :: int
  u_createdAt :: date

record store =
  users :: "user list"
  categories :: "category list"
  threads :: "thread list"
  posts :: "post list"

section \<open>Store operations\<close>

text \<open>
  \<open>Model.findOne(q)\<close> is \<^const>\<open>find\<close> with the query as a predicate: the first
  document that matches. \<open>Model.findById(i)\<close> is \<open>findById\<close>.
  \<open>Model.findByIdAndUpdate(i, u)\<close> changes the first document of that identifier, and
  nothing when there is none. \<open>doc.save()\<close> on a document that \<open>findOne(q)\<close> loaded
  writes that document back: \<open>update_first\<close> on the query \<open>q\<close>, in the collection
  as it was when the document was loaded.
\<close>

definition findById :: "('d \<Rightarrow> oid) \<Rightarrow> oid \<Rightarrow> 'd list \<Rightarrow> 'd option" where
  "findById ident i docs = find (\<lambda>d. ident d = i) docs"

fun update_first :: "('d \<Rightarrow> bool) \<Rightarrow> ('d \<Rightarrow> 'd) \<Rightarrow> 'd list \<Rightarrow> 'd list" where
  "update_first q f [] = []"
| "update_first q f (d # ds) = (if q d then f d # ds else d # update_first q f ds)"

definition findByIdAndUpdate :: "('d \<Rightarrow> oid) \<Rightarrow> oid \<Rightarrow> ('d \<Rightarrow> 'd) \<Rightarrow> 'd list \<Rightarrow> 'd list" where
  "findByIdAndUpdate ident i f docs = update_first (\<lambda>d. ident d = i) f docs"

text \<open>
  \<open>doc.save()\<close> on a new document: the store refuses a second document with the same
  \<open>_id\<close> (the save throws), otherwise the document is appended.
\<close>

definition insert_doc :: "('d \<Rightarrow> oid) \<Rightarrow> 'd \<Rightarrow> 'd list \<Rightarrow> 'd list option" where
  "insert_doc ident d docs =
     (if ident d \<in> set (map ident docs) then None else Some (docs @ [d]))"

text \<open>
  \<open>.limit(l).skip(k)\<close> on a query: the store skips first and then limits, whatever the
  order of the calls. It raises an error on a negative skip, and reads a negative limit
  as its absolute value.
\<close>

definition skip_limit :: "int \<Rightarrow> int \<Rightarrow> 'd list \<Rightarrow> 'd list option" where
  "skip_limit k l docs =
     (if k < 0 then None else Some (take (nat \<bar>l\<bar>) (drop (nat k) docs)))"

section \<open>Responses\<close>

text \<open>
  The JSON envelope \<open>{success, data, message}\<close> with its HTTP status. The \<open>error\<close> text
  of a 500 response, present only in development mode, is left out.
\<close>

record 'd response =
  status :: nat
  success :: bool
  message :: "string option"
  payload :: "'d option"

definition reject :: "nat \<Rightarrow> string \<Rightarrow> 'd response" where
  "reject code msg = \<lparr>status = code, success = False, message = Some msg, payload = None\<rparr>"

text \<open>Every \<open>catch\<close> block of the routes answers the same way.\<close>

definition server_error :: "unit \<Rightarrow> 'd response" where
  "server_error _ = reject 500 ''Server error''"

definition reply :: "nat \<Rightarrow> 'd \<Rightarrow> string option \<Rightarrow> 'd response" where
  "reply code d msg = \<lparr>status = code, success = True, message = msg, payload = Some d\<rparr>"

text \<open>\<open>res.json({success: true, message})\<close> without data.\<close>

definition reply_message :: "string \<Rightarrow> 'd response" where
  "reply_message msg = \<lparr>status = 200, success = True, message = Some msg, payload = None\<rparr>"

section \<open>Pagination\<close>

text \<open>
  \<open>parseInt(req.query.page) || 1\<close>: the argument is what \<open>parseInt\<close> returned, \<open>None\<close>
  for \<open>NaN\<close>; \<open>NaN\<close> and 0 are falsy and give the default.
\<close>

definition or_default :: "int option \<Rightarrow> int \<Rightarrow> int" where
  "or_default parsed d = (case parsed of None \<Rightarrow> d | Some n \<Rightarrow> if n = 0 then d else n)"

text \<open>
  \<open>Math.ceil(total / limit)\<close>. The division of two integers below \<open>2^53\<close> in absolute
  value is rounded to the nearest double, which never moves a quotient across an integer,
  so the ceiling is that of the exact quotient.
\<close>

definition ceil_div :: "int \<Rightarrow> int \<Rightarrow> int" where
  "ceil_div tot limit = \<lceil>real_of_int tot / real_of_int limit\<rceil>"

record pagination =
  currentPage :: int
  totalPages :: int
  totalItems :: int
  hasNext :: bool
  hasPrev :: bool

text \<open>
  The \<open>pagination\<close> object, written the same way in every list route (the count is
  called \<open>totalPosts\<close> or \<open>totalThreads\<close> there).
\<close>

definition paginate :: "int \<Rightarrow> int \<Rightarrow> int \<Rightarrow> pagination" where
  "paginate page limit tot =
     \<lparr>currentPage = page,
      totalPages = ceil_div tot limit,
      totalItems = tot,
      hasNext = (page < ceil_div tot limit),
      hasPrev = (page > 1)\<rparr>"

section \<open>Likes\<close>

text \<open>
  \<open>likes.some(like => like.user.toString() === req.user._id.toString())\<close>, \<open>false\<close>
  without an authenticated user.
\<close>

definition has_liked :: "user option \<Rightarrow> like list \<Rightarrow> bool" where
  "has_liked actor likes =
     (case actor of None \<Rightarrow> False | Some u \<Rightarrow> list_ex (\<lambda>l. like_user l = u_id u) likes)"

text \<open>
  The body of both like routes: look for a like of the user; when there is one, filter
  out every like of the user, otherwise push a new like (its \<open>createdAt\<close> defaults to
  the current time).
\<close>

definition toggle_like :: "oid \<Rightarrow> date \<Rightarrow> like list \<Rightarrow> like list" where
  "toggle_like uid now likes =
     (case find (\<lambda>l. like_user l = uid) likes of
        Some existingLike \<Rightarrow> filter (\<lambda>l. like_user l \<noteq> uid) likes
      | None \<Rightarrow> likes @ [\<lparr>like_user = uid, like_createdAt = now\<rparr>])"

text \<open>The \<open>data\<close> of a like response.\<close>

record like_result =
  liked :: bool
  lr_likeCount :: nat

text \<open>A document view with the two fields the read routes add to it.\<close>

record 'v with_likes =
  view :: 'v
  hasLiked :: bool
  likeCount :: nat

record 'v page =
  page_items :: "'v list"
  page_pagination :: pagination

section \<open>Post routes (routes/posts.js)\<close>

text \<open>
  \<open>populate('author', 'username avatar role postCount createdAt')\<close> puts the author's
  document (or \<open>null\<close>) in place of the reference, and
  \<open>populate('parentPost', 'content author')\<close> the identifier, content and author of
  the parent post.
\<close>

type_synonym parent_view = "oid \<times> jsstring \<times> oid"

record post_view =
  pv_post :: post
  pv_author :: "user option"
  pv_parentPost :: "parent_view option"

definition populate_post :: "store \<Rightarrow> post \<Rightarrow> post_view" where
  "populate_post s p =
     \<lparr>pv_post = p,
      pv_author = findById u_id (p_author p) (users s),
      pv_parentPost =
        (case p_parentPost p of
           None \<Rightarrow> None
         | Some i \<Rightarrow> map_option (\<lambda>pp. (p_id pp, p_content pp, p_author pp))
                      (findById p_id i (posts s)))\<rparr>"

text \<open>
  The validators of the post schema that a save can fail: \<open>content\<close> is required and
  at most 5000 long. Every \<open>save()\<close> of a post runs them, also when the route did not
  set the content; a save that fails throws and writes nothing.
\<close>

definition post_valid :: "post \<Rightarrow> bool" where
  "post_valid p = (p_content p \<noteq> [] \<and> length (p_content p) \<le> 5000)"

text \<open>
  \<open>GET /posts/thread/:threadId\<close>. Posts of equal \<open>createdAt\<close> are listed in insertion order.
\<close>

definition get_thread_posts ::
  "store \<Rightarrow> user option \<Rightarrow> oid \<Rightarrow> int option \<Rightarrow> int option
     \<Rightarrow> post_view with_likes page response \<times> store" where
  "get_thread_posts s actor threadId page_q limit_q =
     (let page = or_default page_q 1;
          limit = or_default limit_q 10
      in case find (\<lambda>t. t_id t = threadId \<and> t_isActive t) (threads s) of
           None \<Rightarrow> (reject 404 ''Thread not found'', s)
         | Some thread \<Rightarrow>
             (case skip_limit ((page - 1) * limit) (limit * 1)
                     (sort_key p_createdAt
                        (filter (\<lambda>p. p_thread p = threadId \<and> p_isActive p) (posts s))) of
                None \<Rightarrow> (server_error (), s)
              | Some found \<Rightarrow>
                  (let tot = int (length (filter (\<lambda>p. p_thread p = threadId \<and> p_isActive p) (posts s)));
                       postsWithLikes =
                         map (\<lambda>p. \<lparr>view = populate_post s p,
                                   hasLiked = has_liked actor (p_likes p),
                                   likeCount = length (p_likes p)\<rparr>) found
                   in (reply 200 \<lparr>page_items = postsWithLikes,
                                  page_pagination = paginate page limit tot\<rparr> None, s))))"

text \<open>
  \<open>POST /posts\<close> by the authenticated user \<open>actor\<close>. \<open>new_id\<close> is the identifier the new
  document gets and \<open>now\<close> the current time. An empty \<open>content\<close> stands for a missing one.
\<close>

definition create_post ::
  "store \<Rightarrow> user \<Rightarrow> oid \<Rightarrow> date \<Rightarrow> jsstring \<Rightarrow> oid option \<Rightarrow> oid option
     \<Rightarrow> post_view with_likes response \<times> store" where
  "create_post s actor new_id now content threadId_q parentPostId =
     (case threadId_q of
        None \<Rightarrow> (reject 400 ''Content and thread ID are required'', s)
      | Some threadId \<Rightarrow>
          if content = [] then (reject 400 ''Content and thread ID are required'', s)
          else
            (case find (\<lambda>t. t_id t = threadId \<and> t_isActive t) (threads s) of
               None \<Rightarrow> (reject 404 ''Thread not found'', s)
             | Some thread \<Rightarrow>
                 if t_isLocked thread then (reject 403 ''Thread is locked'', s)
                 else if (case parentPostId of
                            None \<Rightarrow> False
                          | Some pp \<Rightarrow>
                              find (\<lambda>p. p_id p = pp \<and> p_thread p = threadId \<and> p_isActive p)
                                (posts s) = None)
                 then (reject 404 ''Parent post not found'', s)
                 else
                   (let post = \<lparr>p_id = new_id, p_content = content, p_author = u_id actor,
                                p_thread = threadId, p_parentPost = parentPostId,
                                p_isActive = True, p_likes = [], p_isEdited = False,
                                p_editedAt = None, p_editHistory = [], p_createdAt = now\<rparr>
                    in if \<not> post_valid post then (server_error (), s)
                       else
                         (case insert_doc p_id post (posts s) of
                            None \<Rightarrow> (server_error (), s)
                          | Some posts1 \<Rightarrow>
                              (let s1 = s\<lparr>posts := posts1\<rparr>;
                                   s2 = s1\<lparr>threads := findByIdAndUpdate t_id threadId
                                           (\<lambda>t. t\<lparr>t_replyCount := t_replyCount t + 1,
                                                  t_lastReply := \<lparr>lr_author = Some (u_id actor),
                                                                  lr_createdAt = now\<rparr>\<rparr>)
                                           (threads s1)\<rparr>;
                                   s3 = s2\<lparr>users := findByIdAndUpdate u_id (u_id actor)
                                           (\<lambda>u. u\<lparr>u_postCount := u_postCount u + 1\<rparr>) (users s2)\<rparr>;
                                   s4 = s3\<lparr>categories := findByIdAndUpdate c_id (t_category thread)
                                           (\<lambda>c. c\<lparr>c_postCount := c_postCount c + 1\<rparr>)
                                           (categories s3)\<rparr>
                               in case findById p_id new_id (posts s4) of
                                    None \<Rightarrow> (server_error (), s4)
                                  | Some populatedPost \<Rightarrow>
                                      (reply 201 \<lparr>view = populate_post s4 populatedPost,
                                                  hasLiked = False, likeCount = 0\<rparr>
                                         (Some ''Post created successfully''), s4))))))"

text \<open>\<open>POST /posts/:id/like\<close>\<close>

definition like_post :: "store \<Rightarrow> user \<Rightarrow> date \<Rightarrow> oid \<Rightarrow> like_result response \<times> store" where
  "like_post s actor now pid =
     (case find (\<lambda>p. p_id p = pid \<and> p_isActive p) (posts s) of
        None \<Rightarrow> (reject 404 ''Post not found'', s)
      | Some post \<Rightarrow>
          (let existingLike = find (\<lambda>l. like_user l = u_id actor) (p_likes post);
               likes1 = toggle_like (u_id actor) now (p_likes post);
               post1 = post\<lparr>p_likes := likes1\<rparr>
           in if \<not> post_valid post1 then (server_error (), s)
              else
                (let s1 = s\<lparr>posts := update_first (\<lambda>p. p_id p = pid \<and> p_isActive p)
                                  (\<lambda>p. post1) (posts s)\<rparr>
                 in (reply 200 \<lparr>liked = (existingLike = None), lr_likeCount = length likes1\<rparr>
                       (Some (if existingLike \<noteq> None then ''Post unliked'' else ''Post liked'')),
                     s1))))"

text \<open>
  \<open>PUT /posts/:id\<close> (``author only''). Both \<open>new Date()\<close> of the handler are the one
  time \<open>now\<close> of the request.
\<close>

definition update_post ::
  "store \<Rightarrow> user \<Rightarrow> date \<Rightarrow> oid \<Rightarrow> jsstring \<Rightarrow> post_view response \<times> store" where
  "update_post s actor now pid content =
     (if content = [] then (reject 400 ''Content is required'', s)
      else
        (case find (\<lambda>p. p_id p = pid \<and> p_isActive p) (posts s) of
           None \<Rightarrow> (reject 404 ''Post not found'', s)
         | Some post \<Rightarrow>
             if p_author post \<noteq> u_id actor
             then (reject 403 ''Not authorized to edit this post'', s)
             else
               (let post1 = post\<lparr>p_editHistory := p_editHistory post @
                                   [\<lparr>edit_content = p_content post, edit_editedAt = now\<rparr>],
                                 p_content := content,
                                 p_isEdited := True,
                                 p_editedAt := Some now\<rparr>
                in if \<not> post_valid post1 then (server_error (), s)
                   else
                     (let s1 = s\<lparr>posts := update_first (\<lambda>p. p_id p = pid \<and> p_isActive p)
                                      (\<lambda>p. post1) (posts s)\<rparr>
                      in case findById p_id pid (posts s1) of
                           None \<Rightarrow> (server_error (), s1)
                         | Some populatedPost \<Rightarrow>
                             (reply 200 (populate_post s1 populatedPost)
                                (Some ''Post updated successfully''), s1)))))"

text \<open>
  \<open>DELETE /posts/:id\<close> (``author or admin only''). The post is loaded with its thread
  populated; the save of the inactive post validates it; when the thread document is
  gone, \<open>post.thread\<close> is \<open>null\<close> and reading \<open>post.thread._id\<close> throws after the
  post was saved as inactive.
\<close>

definition delete_post :: "store \<Rightarrow> user \<Rightarrow> oid \<Rightarrow> unit response \<times> store" where
  "delete_post s actor pid =
     (case find (\<lambda>p. p_id p = pid \<and> p_isActive p) (posts s) of
        None \<Rightarrow> (reject 404 ''Post not found'', s)
      | Some post \<Rightarrow>
          if p_author post \<noteq> u_id actor \<and> u_role actor \<noteq> ''admin''
          then (reject 403 ''Not authorized to delete this post'', s)
          else
            (let post1 = post\<lparr>p_isActive := False\<rparr>
             in if \<not> post_valid post1 then (server_error (), s)
                else
                  (let s1 = s\<lparr>posts := update_first (\<lambda>p. p_id p = pid \<and> p_isActive p)
                                    (\<lambda>p. post1) (posts s)\<rparr>
                   in case findById t_id (p_thread post) (threads s) of
                        None \<Rightarrow> (server_error (), s1)
                      | Some thread \<Rightarrow>
                          (let s2 = s1\<lparr>threads := findByIdAndUpdate t_id (t_id thread)
                                         (\<lambda>t. t\<lparr>t_replyCount := t_replyCount t - 1\<rparr>)
                                         (threads s1)\<rparr>;
                               s3 = s2\<lparr>users := findByIdAndUpdate u_id (p_author post)
                                         (\<lambda>u. u\<lparr>u_postCount := u_postCount u - 1\<rparr>)
                                         (users s2)\<rparr>;
                               s4 = s3\<lparr>categories := findByIdAndUpdate c_id (t_category thread)
                                         (\<lambda>c. c\<lparr>c_postCount := c_postCount c - 1\<rparr>)
                                         (categories s3)\<rparr>
                           in (reply_message ''Post deleted successfully'', s4)))))"

section \<open>Thread routes (routes/threads.js)\<close>

text \<open>
  The fields the thread routes select when they populate: \<open>'username avatar role'\<close> of
  the author, \<open>'name color'\<close> of the category, \<open>'username avatar'\<close> of the author of
  the last reply, each with the identifier.
\<close>

type_synonym author_brief = "oid \<times> string \<times> string \<times> string"
type_synonym category_brief = "oid \<times> string \<times> string"
type_synonym reply_author = "oid \<times> string \<times> string"

definition populate_author :: "store \<Rightarrow> oid \<Rightarrow> author_brief option" where
  "populate_author s i =
     map_option (\<lambda>u. (u_id u, u_username u, u_avatar u, u_role u)) (findById u_id i (users s))"

definition populate_category :: "store \<Rightarrow> oid \<Rightarrow> category_brief option" where
  "populate_category s i =
     map_option (\<lambda>c. (c_id c, c_name c, c_color c)) (findById c_id i (categories s))"

definition populate_reply_author :: "store \<Rightarrow> oid option \<Rightarrow> reply_author option" where
  "populate_reply_author s a =
     (case a of
        None \<Rightarrow> None
      | Some i \<Rightarrow> map_option (\<lambda>u. (u_id u, u_username u, u_avatar u)) (findById u_id i (users s)))"

text \<open>A thread as the list route returns it.\<close>

record thread_view =
  tv_thread :: thread
  tv_author :: "author_brief option"
  tv_category :: "category_brief option"
  tv_lastReplyAuthor :: "reply_author option"

text \<open>A thread as the create and update routes return it.\<close>

record thread_brief =
  tb_thread :: thread
  tb_author :: "author_brief option"
  tb_category :: "category_brief option"

text \<open>A thread as the detail route returns it, before \<open>hasLiked\<close> and \<open>likeCount\<close> are added.\<close>

record thread_detail =
  td_thread :: thread
  td_author :: "user option"
  td_category :: "category_brief option"

definition populate_thread :: "store \<Rightarrow> thread \<Rightarrow> thread_brief" where
  "populate_thread s t =
     \<lparr>tb_thread = t,
      tb_author = populate_author s (t_author t),
      tb_category = populate_category s (t_category t)\<rparr>"

text \<open>
  The \<open>trim\<close> setter of the schema is \<open>String.prototype.trim\<close>: it strips, at both
  ends, the white space and line terminator code units of the language: TAB, LF, VT, FF,
  CR, SPACE, NO-BREAK SPACE, OGHAM SPACE MARK, EN QUAD to HAIR SPACE, LINE and PARAGRAPH
  SEPARATOR, NARROW NO-BREAK SPACE, MEDIUM MATHEMATICAL SPACE, IDEOGRAPHIC SPACE and the
  BYTE ORDER MARK.
\<close>

definition is_space :: "16 word \<Rightarrow> bool" where
  "is_space c =
     (c \<in> set [0x0009, 0x000A, 0x000B, 0x000C, 0x000D, 0x0020, 0x00A0, 0x1680,
                0x2028, 0x2029, 0x202F, 0x205F, 0x3000, 0xFEFF]
      \<or> (0x2000 \<le> c \<and> c \<le> 0x200A))"

definition trim :: "jsstring \<Rightarrow> jsstring" where
  "trim str = rev (dropWhile is_space (rev (dropWhile is_space str)))"

text \<open>
  The validators of the thread schema: a required title of at most 200 characters, a
  required content of at most 10000, tags of at most 30 each. Every \<open>save()\<close> of a
  thread runs them on the whole document, also on the fields the route did not set.
\<close>

definition title_valid :: "jsstring \<Rightarrow> bool" where
  "title_valid title = (title \<noteq> [] \<and> length title \<le> 200)"

definition content_valid :: "jsstring \<Rightarrow> bool" where
  "content_valid content = (content \<noteq> [] \<and> length content \<le> 10000)"

definition tags_valid :: "jsstring list \<Rightarrow> bool" where
  "tags_valid tags = list_all (\<lambda>tag. length tag \<le> 30) tags"

definition thread_valid :: "thread \<Rightarrow> bool" where
  "thread_valid t =
     (title_valid (t_title t) \<and> content_valid (t_content t) \<and> tags_valid (t_tags t))"

text \<open>
  The sort option of the list route. A stable sort on the last key first gives the
  order on several keys; threads equal on all keys stay in insertion order. No thread
  has a value at \<open>likes.length\<close>, so that key of the \<open>likes\<close> option orders nothing.
\<close>

definition sort_threads :: "string \<Rightarrow> thread list \<Rightarrow> thread list" where
  "sort_threads sort_mode ts =
     (if sort_mode = ''popular''
      then sort_key (\<lambda>t. - t_views t) (sort_key (\<lambda>t. - t_createdAt t) ts)
      else if sort_mode = ''replies''
      then sort_key (\<lambda>t. - t_replyCount t) (sort_key (\<lambda>t. - t_createdAt t) ts)
      else if sort_mode = ''likes''
      then sort_key (\<lambda>t. - t_createdAt t) ts
      else sort_key (\<lambda>t. if t_isPinned t then 0 else (1::int))
             (sort_key (\<lambda>t. - lr_createdAt (t_lastReply t))
                (sort_key (\<lambda>t. - t_createdAt t) ts)))"

text \<open>
  \<open>GET /threads\<close>. \<open>text_search\<close> is the store's text index (\<open>$text: {$search}\<close>);
  an empty \<open>search\<close> or \<open>sort\<close> stands for a missing one.
\<close>

definition get_threads ::
  "(string \<Rightarrow> thread \<Rightarrow> bool) \<Rightarrow> store \<Rightarrow> user option \<Rightarrow> int option \<Rightarrow> int option
     \<Rightarrow> oid option \<Rightarrow> string \<Rightarrow> string \<Rightarrow> thread_view page response \<times> store" where
  "get_threads text_search s actor page_q limit_q category search sort_q =
     (let page = or_default page_q 1;
          limit = or_default limit_q 10;
          sort_mode = (if sort_q = [] then ''recent'' else sort_q);
          query = (\<lambda>t. t_isActive t
                     \<and> (case category of None \<Rightarrow> True | Some c \<Rightarrow> t_category t = c)
                     \<and> (if search = [] then True else text_search search t))
      in case skip_limit ((page - 1) * limit) (limit * 1)
                (sort_threads sort_mode (filter query (threads s))) of
           None \<Rightarrow> (server_error (), s)
         | Some found \<Rightarrow>
             (let tot = int (length (filter query (threads s)))
              in (reply 200
                    \<lparr>page_items =
                       map (\<lambda>t. \<lparr>tv_thread = t,
                                 tv_author = populate_author s (t_author t),
                                 tv_category = populate_category s (t_category t),
                                 tv_lastReplyAuthor =
                                   populate_reply_author s (lr_author (t_lastReply t))\<rparr>) found,
                     page_pagination = paginate page limit tot\<rparr> None, s)))"

text \<open>\<open>GET /threads/:id\<close>: the read counts a view.\<close>

definition get_thread ::
  "store \<Rightarrow> user option \<Rightarrow> oid \<Rightarrow> thread_detail with_likes response \<times> store" where
  "get_thread s actor tid =
     (let s1 = s\<lparr>threads := update_first (\<lambda>t. t_id t = tid \<and> t_isActive t)
                    (\<lambda>t. t\<lparr>t_views := t_views t + 1\<rparr>) (threads s)\<rparr>
      in case find (\<lambda>t. t_id t = tid \<and> t_isActive t) (threads s1) of
           None \<Rightarrow> (reject 404 ''Thread not found'', s1)
         | Some thread \<Rightarrow>
             (reply 200
                \<lparr>view = \<lparr>td_thread = thread,
                          td_author = findById u_id (t_author thread) (users s1),
                          td_category = populate_category s1 (t_category thread)\<rparr>,
                 hasLiked = has_liked actor (t_likes thread),
                 likeCount = length (t_likes thread)\<rparr> None, s1))"

text \<open>
  \<open>POST /threads\<close> by the authenticated user \<open>actor\<close>. An empty \<open>title\<close> or \<open>content\<close>
  stands for a missing one.
\<close>

definition create_thread ::
  "store \<Rightarrow> user \<Rightarrow> oid \<Rightarrow> date \<Rightarrow> jsstring \<Rightarrow> jsstring \<Rightarrow> oid option
     \<Rightarrow> jsstring list option
     \<Rightarrow> thread_brief response \<times> store" where
  "create_thread s actor new_id now title content category_q tags =
     (case category_q of
        None \<Rightarrow> (reject 400 ''Title, content, and category are required'', s)
      | Some category \<Rightarrow>
          if title = [] \<or> content = []
          then (reject 400 ''Title, content, and category are required'', s)
          else
            (case find (\<lambda>c. c_id c = category \<and> c_isActive c) (categories s) of
               None \<Rightarrow> (reject 400 ''Invalid category'', s)
             | Some categoryExists \<Rightarrow>
                 (let thread = \<lparr>t_id = new_id, t_title = trim title, t_content = content,
                                t_author = u_id actor, t_category = category,
                                t_isPinned = False, t_isLocked = False, t_isActive = True,
                                t_views = 0, t_replyCount = 0,
                                t_lastReply = \<lparr>lr_author = None, lr_createdAt = now\<rparr>,
                                t_tags = map trim (case tags of None \<Rightarrow> [] | Some ts \<Rightarrow> ts),
                                t_likes = [], t_createdAt = now\<rparr>
                  in if \<not> thread_valid thread then (server_error (), s)
                     else
                       (case insert_doc t_id thread (threads s) of
                          None \<Rightarrow> (server_error (), s)
                        | Some threads1 \<Rightarrow>
                            (let s1 = s\<lparr>threads := threads1\<rparr>;
                                 s2 = s1\<lparr>categories := findByIdAndUpdate c_id category
                                         (\<lambda>c. c\<lparr>c_threadCount := c_threadCount c + 1\<rparr>)
                                         (categories s1)\<rparr>;
                                 s3 = s2\<lparr>users := findByIdAndUpdate u_id (u_id actor)
                                         (\<lambda>u. u\<lparr>u_postCount := u_postCount u + 1\<rparr>) (users s2)\<rparr>
                             in case findById t_id new_id (threads s3) of
                                  None \<Rightarrow> (server_error (), s3)
                                | Some populatedThread \<Rightarrow>
                                    (reply 201 (populate_thread s3 populatedThread)
                                       (Some ''Thread created successfully''), s3))))))"

text \<open>\<open>POST /threads/:id/like\<close>\<close>

definition like_thread :: "store \<Rightarrow> user \<Rightarrow> date \<Rightarrow> oid \<Rightarrow> like_result response \<times> store" where
  "like_thread s actor now tid =
     (case find (\<lambda>t. t_id t = tid \<and> t_isActive t) (threads s) of
        None \<Rightarrow> (reject 404 ''Thread not found'', s)
      | Some thread \<Rightarrow>
          (let existingLike = find (\<lambda>l. like_user l = u_id actor) (t_likes thread);
               likes1 = toggle_like (u_id actor) now (t_likes thread);
               thread1 = thread\<lparr>t_likes := likes1\<rparr>
           in if \<not> thread_valid thread1 then (server_error (), s)
              else
                (let s1 = s\<lparr>threads := update_first (\<lambda>t. t_id t = tid \<and> t_isActive t)
                                    (\<lambda>t. thread1) (threads s)\<rparr>
                 in (reply 200 \<lparr>liked = (existingLike = None), lr_likeCount = length likes1\<rparr>
                       (Some (if existingLike \<noteq> None then ''Thread unliked''
                              else ''Thread liked'')),
                     s1))))"

text \<open>
  \<open>PUT /threads/:id\<close> (``author or admin only''). Only the fields given in the body
  are set; an empty array of tags is given. The save validates the whole thread.
\<close>

definition update_thread ::
  "store \<Rightarrow> user \<Rightarrow> oid \<Rightarrow> jsstring \<Rightarrow> jsstring \<Rightarrow> jsstring list option
     \<Rightarrow> thread_brief response \<times> store" where
  "update_thread s actor tid title content tags =
     (case find (\<lambda>t. t_id t = tid \<and> t_isActive t) (threads s) of
        None \<Rightarrow> (reject 404 ''Thread not found'', s)
      | Some thread \<Rightarrow>
          if t_author thread \<noteq> u_id actor \<and> u_role actor \<noteq> ''admin''
          then (reject 403 ''Not authorized to edit this thread'', s)
          else
            (let thread1 = (if title = [] then thread else thread\<lparr>t_title := trim title\<rparr>);
                 thread2 = (if content = [] then thread1 else thread1\<lparr>t_content := content\<rparr>);
                 thread3 = (case tags of
                              None \<Rightarrow> thread2
                            | Some ts \<Rightarrow> thread2\<lparr>t_tags := map trim ts\<rparr>)
             in if \<not> thread_valid thread3 then (server_error (), s)
                else
                  (let s1 = s\<lparr>threads := update_first (\<lambda>t. t_id t = tid \<and> t_isActive t)
                                     (\<lambda>t. thread3) (threads s)\<rparr>
                   in case findById t_id tid (threads s1) of
                        None \<Rightarrow> (server_error (), s1)
                      | Some populatedThread \<Rightarrow>
                          (reply 200 (populate_thread s1 populatedThread)
                             (Some ''Thread updated successfully''), s1))))"

text \<open>\<open>DELETE /threads/:id\<close> (``author or admin only'')\<close>

definition delete_thread :: "store \<Rightarrow> user \<Rightarrow> oid \<Rightarrow> unit response \<times> store" where
  "delete_thread s actor tid =
     (case find (\<lambda>t. t_id t = tid \<and> t_isActive t) (threads s) of
        None \<Rightarrow> (reject 404 ''Thread not found'', s)
      | Some thread \<Rightarrow>
          if t_author thread \<noteq> u_id actor \<and> u_role actor \<noteq> ''admin''
          then (reject 403 ''Not authorized to delete this thread'', s)
          else
            (let thread1 = thread\<lparr>t_isActive := False\<rparr>
             in if \<not> thread_valid thread1 then (server_error (), s)
                else
                  (let s1 = s\<lparr>threads := update_first (\<lambda>t. t_id t = tid \<and> t_isActive t)
                                      (\<lambda>t. thread1) (threads s)\<rparr>;
                       s2 = s1\<lparr>categories := findByIdAndUpdate c_id (t_category thread)
                                 (\<lambda>c. c\<lparr>c_threadCount := c_threadCount c - 1\<rparr>)
                                 (categories s1)\<rparr>
                   in (reply_message ''Thread deleted successfully'', s2))))"

section \<open>Properties named by the specification\<close>

text \<open>
  The authorization predicate as the specification words it: the actor is the author
  of the entity or has the role \<open>admin\<close>. The routes write the test inline.
\<close>

definition canMutate :: "user \<Rightarrow> oid \<Rightarrow> bool" where
  "canMutate actor author = (u_id actor = author \<or> u_role actor = ''admin'')"

text \<open>
  The pagination contract as the specification words it, for page \<open>p\<close>, limit \<open>l\<close>
  and \<open>n\<close> matching items.
\<close>

definition spec_pagination :: "int \<Rightarrow> int \<Rightarrow> int \<Rightarrow> pagination \<Rightarrow> bool" where
  "spec_pagination p l n pg =
     (hasNext pg = (p * l < n) \<and> hasPrev pg = (p > 1)
      \<and> totalPages pg = \<lceil>real_of_int n / real_of_int l\<rceil> \<and> currentPage pg = p)"

text \<open>The users that have a like in a likes array.\<close>

definition likers :: "like list \<Rightarrow> oid set" where
  "likers likes = set (map like_user likes)"

text \<open>The likes of one user in a likes array.\<close>

definition likes_of :: "oid \<Rightarrow> like list \<Rightarrow> like list" where
  "likes_of u likes = filter (\<lambda>l. like_user l = u) likes"

text \<open>A likes array holds at most one like of each user.\<close>

definition likes_distinct :: "like list \<Rightarrow> bool" where
  "likes_distinct likes = distinct (map like_user likes)"

text \<open>The invariant on the store: every thread's and every post's likes array is so.\<close>

definition likes_unique :: "store \<Rightarrow> bool" where
  "likes_unique s =
     (list_all (\<lambda>t. likes_distinct (t_likes t)) (threads s)
      \<and> list_all (\<lambda>p. likes_distinct (p_likes p)) (posts s))"

text \<open>
  A response of a read route without what the read says about the reader: every
  \<open>hasLiked\<close> of its data is put to \<open>False\<close>.
\<close>

definition without_hasLiked :: "'v with_likes response \<Rightarrow> 'v with_likes response" where
  "without_hasLiked r = r\<lparr>payload := map_option (\<lambda>d. d\<lparr>hasLiked := False\<rparr>) (payload r)\<rparr>"

definition without_hasLiked_page ::
  "'v with_likes page response \<Rightarrow> 'v with_likes page response" where
  "without_hasLiked_page r =
     r\<lparr>payload := map_option
          (\<lambda>pg. pg\<lparr>page_items := map (\<lambda>d. d\<lparr>hasLiked := False\<rparr>) (page_items pg)\<rparr>)
          (payload r)\<rparr>"

section \<open>A forum to run the routes on\<close>

text \<open>
  The scenario of the specification: user A wrote thread T in the category General,
  user B replied with post P; there is an administrator, and a second, locked thread.
\<close>

text \<open>The texts \<open>T\<close>, \<open>L\<close>, \<open>News\<close> and \<open>hello\<close>, and \<open>News\<close> between a space and a no-break space.\<close>

definition text_T :: jsstring where
  "text_T = [0x54]"

definition text_L :: jsstring where
  "text_L = [0x4C]"

definition text_News :: jsstring where
  "text_News = [0x4E, 0x65, 0x77, 0x73]"

definition text_hello :: jsstring where
  "text_hello = [0x68, 0x65, 0x6C, 0x6C, 0x6F]"

definition text_News_padded :: jsstring where
  "text_News_padded = [0x20, 0x4E, 0x65, 0x77, 0x73, 0xA0]"

definition user_A :: user where
  "user_A = \<lparr>u_id = 1, u_username = ''A'', u_avatar = [], u_role = ''user'',
             u_postCount = 1, u_createdAt = 0\<rparr>"

definition user_B :: user where
  "user_B = \<lparr>u_id = 2, u_username = ''B'', u_avatar = [], u_role = ''user'',
             u_postCount = 1, u_createdAt = 0\<rparr>"

definition user_admin :: user where
  "user_admin = \<lparr>u_id = 3, u_username = ''root'', u_avatar = [], u_role = ''admin'',
                 u_postCount = 0, u_createdAt = 0\<rparr>"

definition cat_general :: category where
  "cat_general = \<lparr>c_id = 10, c_name = ''General'', c_description = ''Anything'',
                  c_color = ''#3B82F6'', c_icon = ''MessageSquare'', c_isActive = True,
                  c_threadCount = 2, c_postCount = 1, c_order = 0, c_createdAt = 0\<rparr>"

definition cat_other :: category where
  "cat_other = \<lparr>c_id = 11, c_name = ''Other'', c_description = ''The rest'',
                c_color = ''#3B82F6'', c_icon = ''MessageSquare'', c_isActive = True,
                c_threadCount = 0, c_postCount = 0, c_order = 1, c_createdAt = 0\<rparr>"

definition thread_T :: thread where
  "thread_T = \<lparr>t_id = 20, t_title = text_T, t_content = text_hello, t_author = 1,
               t_category = 10, t_isPinned = False, t_isLocked = False, t_isActive = True,
               t_views = 0, t_replyCount = 1,
               t_lastReply = \<lparr>lr_author = Some 2, lr_createdAt = 2\<rparr>,
               t_tags = [], t_likes = [\<lparr>like_user = 2, like_createdAt = 3\<rparr>],
               t_createdAt = 1\<rparr>"

definition thread_locked :: thread where
  "thread_locked = \<lparr>t_id = 21, t_title = text_L, t_content = text_hello, t_author = 1,
                    t_category = 10, t_isPinned = False, t_isLocked = True, t_isActive = True,
                    t_views = 0, t_replyCount = 0,
                    t_lastReply = \<lparr>lr_author = None, lr_createdAt = 1\<rparr>,
                    t_tags = [], t_likes = [], t_createdAt = 1\<rparr>"

definition post_P :: post where
  "post_P = \<lparr>p_id = 30, p_content = text_hello, p_author = 2, p_thread = 20,
             p_parentPost = None, p_isActive = True,
             p_likes = [\<lparr>like_user = 1, like_createdAt = 4\<rparr>], p_isEdited = False,
             p_editedAt = None, p_editHistory = [], p_createdAt = 2\<rparr>"

definition forum :: store where
  "forum = \<lparr>users = [user_A, user_B, user_admin], categories = [cat_general, cat_other],
            threads = [thread_T, thread_locked], posts = [post_P]\<rparr>"

text \<open>A forum whose one thread holds two likes of user B.\<close>

definition thread_twice :: thread where
  "thread_twice = \<lparr>t_id = 23, t_title = text_T, t_content = text_hello, t_author = 1,
                   t_category = 10, t_isPinned = False, t_isLocked = False, t_isActive = True,
                   t_views = 0, t_replyCount = 0,
                   t_lastReply = \<lparr>lr_author = None, lr_createdAt = 1\<rparr>,
                   t_tags = [],
                   t_likes = [\<lparr>like_user = 2, like_createdAt = 3\<rparr>,
                              \<lparr>like_user = 2, like_createdAt = 3\<rparr>],
                   t_createdAt = 1\<rparr>"

definition forum_twice :: store where
  "forum_twice = \<lparr>users = [user_A, user_B, user_admin], categories = [cat_general],
                  threads = [thread_twice], posts = []\<rparr>"

section \<open>Lemmas about the store operations\<close>

lemma find_append_split:
  "find P (xs @ ys) = (case find P xs of None \<Rightarrow> find P ys | Some x \<Rightarrow> Some x)"
  by (induction xs) auto

lemma findById_update:
  assumes "\<And>d. ident (f d) = ident d"
  shows "findById ident j (findByIdAndUpdate ident i f ds) =
           (if j = i then map_option f (findById ident j ds) else findById ident j ds)"
  using assms by (induction ds) (auto simp: findById_def findByIdAndUpdate_def)

lemma find_None_ids: "i \<notin> set (map ident ds) \<Longrightarrow> find (\<lambda>d. ident d = i \<and> Q d) ds = None"
  by (induction ds) auto

lemma find_active_findById:
  "find (\<lambda>d. ident d = i \<and> Q d) ds = Some d \<Longrightarrow> \<exists>d'. findById ident i ds = Some d'"
  by (induction ds) (auto simp: findById_def split: if_splits)

lemma findById_id: "findById ident i ds = Some d \<Longrightarrow> ident d = i"
  by (induction ds) (auto simp: findById_def split: if_splits)

lemma find_update_first:
  "find Q ds = Some d \<Longrightarrow> Q (f d) \<Longrightarrow> find Q (update_first Q f ds) = Some (f d)"
  by (induction ds) (auto split: if_splits)

lemma find_update_first_None: "find Q ds = None \<Longrightarrow> update_first Q f ds = ds"
  by (induction ds) (auto split: if_splits)

lemma list_all_update_first:
  "list_all P ds \<Longrightarrow> (\<And>d. P d \<Longrightarrow> P (f d)) \<Longrightarrow> list_all P (update_first Q f ds)"
  by (induction ds) auto

lemma list_all_findByIdAndUpdate:
  "list_all P ds \<Longrightarrow> (\<And>d. P d \<Longrightarrow> P (f d)) \<Longrightarrow> list_all P (findByIdAndUpdate ident i f ds)"
  by (simp add: findByIdAndUpdate_def list_all_update_first)

lemma find_Some_P: "find Q ds = Some d \<Longrightarrow> d \<in> set ds \<and> Q d"
  by (induction ds) (auto split: if_splits)

lemma map_findByIdAndUpdate:
  "(\<And>d. g (f d) = g d) \<Longrightarrow> map g (findByIdAndUpdate ident i f ds) = map g ds"
  by (induction ds) (auto simp: findByIdAndUpdate_def)

section \<open>What a successful request did\<close>

lemma pair_fst_snd: "f = (fst f, snd f)"
  by simp

lemma create_post_created:
  assumes "create_post s actor new_id now content tq parent = (r, s')" and "status r = 201"
  shows "\<exists>tid thread. tq = Some tid
           \<and> find (\<lambda>t. t_id t = tid \<and> t_isActive t) (threads s) = Some thread
           \<and> \<not> t_isLocked thread
           \<and> new_id \<notin> set (map p_id (posts s))
           \<and> s' = s\<lparr>posts := posts s @
                       [\<lparr>p_id = new_id, p_content = content, p_author = u_id actor,
                         p_thread = tid, p_parentPost = parent,
                         p_isActive = True, p_likes = [], p_isEdited = False,
                         p_editedAt = None, p_editHistory = [], p_createdAt = now\<rparr>],
                     threads := findByIdAndUpdate t_id tid
                       (\<lambda>t. t\<lparr>t_replyCount := t_replyCount t + 1,
                              t_lastReply := \<lparr>lr_author = Some (u_id actor), lr_createdAt = now\<rparr>\<rparr>)
                       (threads s),
                     users := findByIdAndUpdate u_id (u_id actor)
                       (\<lambda>u. u\<lparr>u_postCount := u_postCount u + 1\<rparr>) (users s),
                     categories := findByIdAndUpdate c_id (t_category thread)
                       (\<lambda>c. c\<lparr>c_postCount := c_postCount c + 1\<rparr>) (categories s)\<rparr>"
  using assms
  by (auto simp: create_post_def Let_def reject_def server_error_def reply_def insert_doc_def
           split: option.splits if_splits)

lemma delete_post_deleted:
  assumes "delete_post s actor pid = (r, s')" and "status r = 200"
  shows "\<exists>post thread. find (\<lambda>p. p_id p = pid \<and> p_isActive p) (posts s) = Some post
           \<and> canMutate actor (p_author post)
           \<and> findById t_id (p_thread post) (threads s) = Some thread
           \<and> s' = s\<lparr>posts := update_first (\<lambda>p. p_id p = pid \<and> p_isActive p)
                                  (\<lambda>p. post\<lparr>p_isActive := False\<rparr>) (posts s),
                     threads := findByIdAndUpdate t_id (t_id thread)
                                  (\<lambda>t. t\<lparr>t_replyCount := t_replyCount t - 1\<rparr>) (threads s),
                     users := findByIdAndUpdate u_id (p_author post)
                                  (\<lambda>u. u\<lparr>u_postCount := u_postCount u - 1\<rparr>) (users s),
                     categories := findByIdAndUpdate c_id (t_category thread)
                                  (\<lambda>c. c\<lparr>c_postCount := c_postCount c - 1\<rparr>) (categories s)\<rparr>"
  using assms
  by (auto simp: delete_post_def Let_def reject_def server_error_def reply_message_def canMutate_def
           split: option.splits if_splits)

lemma create_thread_created:
  assumes "create_thread s actor new_id now title content cq tags = (r, s')" and "status r = 201"
  shows "\<exists>C cat. cq = Some C
           \<and> find (\<lambda>c. c_id c = C \<and> c_isActive c) (categories s) = Some cat
           \<and> new_id \<notin> set (map t_id (threads s))
           \<and> s' = s\<lparr>threads := threads s @
                       [\<lparr>t_id = new_id, t_title = trim title, t_content = content,
                         t_author = u_id actor, t_category = C,
                         t_isPinned = False, t_isLocked = False, t_isActive = True,
                         t_views = 0, t_replyCount = 0,
                         t_lastReply = \<lparr>lr_author = None, lr_createdAt = now\<rparr>,
                         t_tags = map trim (case tags of None \<Rightarrow> [] | Some ts \<Rightarrow> ts),
                         t_likes = [], t_createdAt = now\<rparr>],
                     categories := findByIdAndUpdate c_id C
                       (\<lambda>c. c\<lparr>c_threadCount := c_threadCount c + 1\<rparr>) (categories s),
                     users := findByIdAndUpdate u_id (u_id actor)
                       (\<lambda>u. u\<lparr>u_postCount := u_postCount u + 1\<rparr>) (users s)\<rparr>"
  using assms
  by (auto simp: create_thread_def Let_def reject_def server_error_def reply_def insert_doc_def
           split: option.splits if_splits)

section \<open>Evaluating the routes on the example forum\<close>

lemmas forum_defs = forum_def user_A_def user_B_def user_admin_def cat_general_def cat_other_def
  thread_T_def thread_locked_def post_P_def forum_twice_def thread_twice_def
  text_T_def text_L_def text_News_def text_hello_def text_News_padded_def

lemmas valid_defs = post_valid_def thread_valid_def title_valid_def content_valid_def
  tags_valid_def

text \<open>The setter strips the space in front and the no-break space behind.\<close>

lemma trim_News_padded: "trim text_News_padded = text_News"
  by (simp add: trim_def is_space_def text_News_padded_def text_News_def)

lemmas store_defs = findById_def findByIdAndUpdate_def insert_doc_def skip_limit_def
  reject_def server_error_def reply_def reply_message_def

section \<open>Lemmas about pagination\<close>

lemma ceil_div_less: "0 < l \<Longrightarrow> (p < ceil_div n l) = (p * l < n)"
proof -
  assume l: "0 < l"
  have "(p < \<lceil>real_of_int n / real_of_int l\<rceil>) = (real_of_int p < real_of_int n / real_of_int l)"
    by (simp add: less_ceiling_iff)
  also have "\<dots> = (real_of_int p * real_of_int l < real_of_int n)"
    using l by (simp add: pos_less_divide_eq)
  also have "\<dots> = (p * l < n)"
    by (metis of_int_less_iff of_int_mult)
  finally show ?thesis by (simp add: ceil_div_def)
qed

lemma paginate_spec: "1 \<le> l \<Longrightarrow> spec_pagination p l n (paginate p l n)"
  by (simp add: spec_pagination_def paginate_def ceil_div_less) (simp add: ceil_div_def)

lemma or_default_Some: "n \<noteq> 0 \<Longrightarrow> or_default (Some n) d = n"
  by (simp add: or_default_def)

lemma skip_limit_nonneg:
  "0 \<le> k \<Longrightarrow> skip_limit k l docs = Some (take (nat \<bar>l\<bar>) (drop (nat k) docs))"
  by (simp add: skip_limit_def)

lemma totalItems_paginate: "totalItems (paginate p l n) = n"
  by (simp add: paginate_def)

lemma get_threads_page:
  assumes "1 \<le> p" and "1 \<le> l"
  shows "status (fst (get_threads ts s actor (Some p) (Some l) cat search sort_q)) = 200
       \<and> map_option page_pagination
           (payload (fst (get_threads ts s actor (Some p) (Some l) cat search sort_q))) =
          Some (paginate p l
             (int (length (filter (\<lambda>t. t_isActive t
                     \<and> (case cat of None \<Rightarrow> True | Some c \<Rightarrow> t_category t = c)
                     \<and> (if search = [] then True else ts search t)) (threads s)))))"
proof -
  have "0 \<le> (p - 1) * l" using assms by simp
  then show ?thesis using assms
    by (simp add: get_threads_def Let_def or_default_Some skip_limit_nonneg reply_def)
qed

lemma get_thread_posts_page:
  assumes "1 \<le> p" and "1 \<le> l"
    and "find (\<lambda>t. t_id t = tid \<and> t_isActive t) (threads s) = Some t"
  shows "status (fst (get_thread_posts s actor tid (Some p) (Some l))) = 200
       \<and> map_option page_pagination
           (payload (fst (get_thread_posts s actor tid (Some p) (Some l)))) =
          Some (paginate p l
             (int (length (filter (\<lambda>p. p_thread p = tid \<and> p_isActive p) (posts s)))))"
proof -
  have "0 \<le> (p - 1) * l" using assms by simp
  then show ?thesis using assms
    by (simp add: get_thread_posts_def Let_def or_default_Some skip_limit_nonneg reply_def)
qed

section \<open>Lemmas about the like toggle\<close>

lemma find_user_None: "(find (\<lambda>l. like_user l = u) likes = None) = (u \<notin> likers likes)"
  by (auto simp: find_None_iff likers_def)

lemma filter_others_id: "u \<notin> likers likes \<Longrightarrow> filter (\<lambda>l. like_user l \<noteq> u) likes = likes"
  by (induction likes) (auto simp: likers_def)

lemma likers_filter: "likers (filter (\<lambda>l. like_user l \<noteq> u) likes) = likers likes - {u}"
  by (induction likes) (auto simp: likers_def)

lemma toggle_absent:
  "u \<notin> likers likes \<Longrightarrow> toggle_like u now likes = likes @ [\<lparr>like_user = u, like_createdAt = now\<rparr>]"
  using find_user_None [of u likes] by (simp add: toggle_like_def)

lemma toggle_present:
  "u \<in> likers likes \<Longrightarrow> toggle_like u now likes = filter (\<lambda>l. like_user l \<noteq> u) likes"
  using find_user_None [of u likes] by (auto simp: toggle_like_def split: option.splits)

lemma likes_of_present: "u \<in> likers likes \<Longrightarrow> likes_of u likes \<noteq> []"
  by (auto simp: likes_of_def likers_def filter_empty_conv)

lemma length_filter_others:
  assumes "u \<in> likers likes" and "length (likes_of u likes) \<le> 1"
  shows "Suc (length (filter (\<lambda>l. like_user l \<noteq> u) likes)) = length likes"
proof -
  have "length (likes_of u likes) = 1"
    using likes_of_present [OF assms(1)] assms(2) by (cases "likes_of u likes") auto
  moreover have "length (likes_of u likes) + length (filter (\<lambda>l. like_user l \<noteq> u) likes)
                   = length likes"
    unfolding likes_of_def by (rule sum_length_filter_compl)
  ultimately show ?thesis by simp
qed

lemma toggle_twice_likers: "likers (toggle_like u n2 (toggle_like u n1 likes)) = likers likes"
proof (cases "u \<in> likers likes")
  case True
  then have "toggle_like u n2 (toggle_like u n1 likes) =
      filter (\<lambda>l. like_user l \<noteq> u) likes @ [\<lparr>like_user = u, like_createdAt = n2\<rparr>]"
    by (simp add: toggle_present toggle_absent likers_filter)
  then show ?thesis using True by (auto simp: likers_filter) (auto simp: likers_def)
next
  case False
  then show ?thesis
    by (simp add: toggle_absent toggle_present likers_def filter_others_id [unfolded likers_def])
qed

lemma toggle_twice_length:
  "length (likes_of u likes) \<le> 1 \<Longrightarrow>
     length (toggle_like u n2 (toggle_like u n1 likes)) = length likes"
proof (cases "u \<in> likers likes")
  case True
  assume d: "length (likes_of u likes) \<le> 1"
  have "toggle_like u n2 (toggle_like u n1 likes) =
      filter (\<lambda>l. like_user l \<noteq> u) likes @ [\<lparr>like_user = u, like_createdAt = n2\<rparr>]"
    using True by (simp add: toggle_present toggle_absent likers_filter)
  then show ?thesis using length_filter_others [OF True d] by simp
next
  case False
  then show ?thesis
    by (simp add: toggle_absent toggle_present likers_def filter_others_id [unfolded likers_def])
qed

lemma likes_distinct_toggle: "likes_distinct likes \<Longrightarrow> likes_distinct (toggle_like u now likes)"
proof (cases "u \<in> likers likes")
  case True
  assume "likes_distinct likes"
  then show ?thesis using True
    by (simp add: toggle_present likes_distinct_def distinct_map_filter)
next
  case False
  assume "likes_distinct likes"
  then show ?thesis using False
    by (simp add: toggle_absent likes_distinct_def likers_def)
qed

lemma post_valid_likes: "post_valid (p\<lparr>p_likes := likes\<rparr>) = post_valid p"
  by (simp add: post_valid_def)

lemma post_valid_isActive: "post_valid (p\<lparr>p_isActive := b\<rparr>) = post_valid p"
  by (simp add: post_valid_def)

lemma thread_valid_likes: "thread_valid (t\<lparr>t_likes := likes\<rparr>) = thread_valid t"
  by (simp add: thread_valid_def)

lemma thread_valid_isActive: "thread_valid (t\<lparr>t_isActive := b\<rparr>) = thread_valid t"
  by (simp add: thread_valid_def)

lemma like_post_loaded:
  assumes "find (\<lambda>p. p_id p = pid \<and> p_isActive p) (posts s) = Some post"
  shows "find (\<lambda>p. p_id p = pid \<and> p_isActive p) (posts (snd (like_post s actor now pid)))
           = Some (if post_valid post
                   then post\<lparr>p_likes := toggle_like (u_id actor) now (p_likes post)\<rparr>
                   else post)"
proof -
  have q: "p_id post = pid \<and> p_isActive post"
    using find_Some_P [OF assms] by simp
  show ?thesis
    using assms q by (simp add: like_post_def Let_def find_update_first post_valid_likes)
qed

lemma like_thread_loaded:
  assumes "find (\<lambda>t. t_id t = tid \<and> t_isActive t) (threads s) = Some thread"
  shows "find (\<lambda>t. t_id t = tid \<and> t_isActive t) (threads (snd (like_thread s actor now tid)))
           = Some (if thread_valid thread
                   then thread\<lparr>t_likes := toggle_like (u_id actor) now (t_likes thread)\<rparr>
                   else thread)"
proof -
  have q: "t_id thread = tid \<and> t_isActive thread"
    using find_Some_P [OF assms] by simp
  show ?thesis
    using assms q by (simp add: like_thread_def Let_def find_update_first thread_valid_likes)
qed

lemma like_post_twice_loaded:
  assumes "find (\<lambda>p. p_id p = pid \<and> p_isActive p) (posts s) = Some post"
  shows "find (\<lambda>p. p_id p = pid \<and> p_isActive p)
           (posts (snd (like_post (snd (like_post s actor n1 pid)) actor n2 pid)))
           = Some (if post_valid post
                   then post\<lparr>p_likes := toggle_like (u_id actor) n2
                                            (toggle_like (u_id actor) n1 (p_likes post))\<rparr>
                   else post)"
proof -
  note first = like_post_loaded [OF assms, of actor n1]
  show ?thesis
    using like_post_loaded [OF first, of actor n2] by (simp add: post_valid_likes)
qed

lemma like_thread_twice_loaded:
  assumes "find (\<lambda>t. t_id t = tid \<and> t_isActive t) (threads s) = Some thread"
  shows "find (\<lambda>t. t_id t = tid \<and> t_isActive t)
           (threads (snd (like_thread (snd (like_thread s actor n1 tid)) actor n2 tid)))
           = Some (if thread_valid thread
                   then thread\<lparr>t_likes := toggle_like (u_id actor) n2
                                              (toggle_like (u_id actor) n1 (t_likes thread))\<rparr>
                   else thread)"
proof -
  note first = like_thread_loaded [OF assms, of actor n1]
  show ?thesis
    using like_thread_loaded [OF first, of actor n2] by (simp add: thread_valid_likes)
qed

section \<open>The likes invariant, route by route\<close>

lemma list_all_append1: "list_all P ds \<Longrightarrow> P d \<Longrightarrow> list_all P (ds @ [d])"
  by simp

lemma list_all_find: "list_all P ds \<Longrightarrow> find Q ds = Some d \<Longrightarrow> P d"
  using find_Some_P [of Q ds d] by (auto simp: list_all_iff)

lemma likes_unique_create_post:
  "likes_unique s \<Longrightarrow> likes_unique (snd (create_post s actor new_id now content tq parent))"
  by (auto simp: likes_unique_def create_post_def Let_def insert_doc_def likes_distinct_def
        list_all_findByIdAndUpdate split: option.splits)

lemma likes_unique_like_post:
  "likes_unique s \<Longrightarrow> likes_unique (snd (like_post s actor now pid))"
proof (cases "find (\<lambda>p. p_id p = pid \<and> p_isActive p) (posts s)")
  case None
  then show "likes_unique s \<Longrightarrow> ?thesis" by (simp add: like_post_def)
next
  case (Some post)
  assume inv: "likes_unique s"
  then have "list_all (\<lambda>p. likes_distinct (p_likes p)) (posts s)"
    by (simp add: likes_unique_def)
  then have "likes_distinct (p_likes post)"
    using Some by (rule list_all_find)
  then have "likes_distinct (toggle_like (u_id actor) now (p_likes post))"
    by (rule likes_distinct_toggle)
  then show ?thesis
    using inv Some by (simp add: likes_unique_def like_post_def Let_def list_all_update_first)
qed

lemma likes_unique_update_post:
  "likes_unique s \<Longrightarrow> likes_unique (snd (update_post s actor now pid content))"
proof (cases "find (\<lambda>p. p_id p = pid \<and> p_isActive p) (posts s)")
  case None
  then show "likes_unique s \<Longrightarrow> ?thesis" by (simp add: update_post_def)
next
  case (Some post)
  assume inv: "likes_unique s"
  then have "list_all (\<lambda>p. likes_distinct (p_likes p)) (posts s)"
    by (simp add: likes_unique_def)
  then have "likes_distinct (p_likes post)"
    using Some by (rule list_all_find)
  then show ?thesis
    using inv Some
    by (auto simp: likes_unique_def update_post_def Let_def list_all_update_first
          split: option.splits)
qed

lemma likes_unique_delete_post:
  "likes_unique s \<Longrightarrow> likes_unique (snd (delete_post s actor pid))"
proof (cases "find (\<lambda>p. p_id p = pid \<and> p_isActive p) (posts s)")
  case None
  then show "likes_unique s \<Longrightarrow> ?thesis" by (simp add: delete_post_def)
next
  case (Some post)
  assume inv: "likes_unique s"
  then have "list_all (\<lambda>p. likes_distinct (p_likes p)) (posts s)"
    by (simp add: likes_unique_def)
  then have "likes_distinct (p_likes post)"
    using Some by (rule list_all_find)
  then show ?thesis
    using inv Some
    by (auto simp: likes_unique_def delete_post_def Let_def list_all_update_first
          list_all_findByIdAndUpdate split: option.splits)
qed

lemma likes_unique_get_thread_posts:
  "likes_unique s \<Longrightarrow> likes_unique (snd (get_thread_posts s actor tid pq lq))"
  by (auto simp: get_thread_posts_def Let_def split: option.splits)

lemma likes_unique_get_threads:
  "likes_unique s \<Longrightarrow> likes_unique (snd (get_threads ts s actor pq lq cat search sort_q))"
  by (auto simp: get_threads_def Let_def split: option.splits)

lemma likes_unique_get_thread:
  "likes_unique s \<Longrightarrow> likes_unique (snd (get_thread s actor tid))"
  by (auto simp: likes_unique_def get_thread_def Let_def list_all_update_first
        split: option.splits)

lemma likes_unique_create_thread:
  "likes_unique s \<Longrightarrow> likes_unique (snd (create_thread s actor new_id now title content cq tags))"
  by (auto simp: likes_unique_def create_thread_def Let_def insert_doc_def likes_distinct_def
        list_all_findByIdAndUpdate split: option.splits)

lemma likes_unique_like_thread:
  "likes_unique s \<Longrightarrow> likes_unique (snd (like_thread s actor now tid))"
proof (cases "find (\<lambda>t. t_id t = tid \<and> t_isActive t) (threads s)")
  case None
  then show "likes_unique s \<Longrightarrow> ?thesis" by (simp add: like_thread_def)
next
  case (Some thread)
  assume inv: "likes_unique s"
  then have "list_all (\<lambda>t. likes_distinct (t_likes t)) (threads s)"
    by (simp add: likes_unique_def)
  then have "likes_distinct (t_likes thread)"
    using Some by (rule list_all_find)
  then have "likes_distinct (toggle_like (u_id actor) now (t_likes thread))"
    by (rule likes_distinct_toggle)
  then show ?thesis
    using inv Some by (simp add: likes_unique_def like_thread_def Let_def list_all_update_first)
qed

lemma likes_unique_update_thread:
  "likes_unique s \<Longrightarrow> likes_unique (snd (update_thread s actor tid title content tags))"
proof (cases "find (\<lambda>t. t_id t = tid \<and> t_isActive t) (threads s)")
  case None
  then show "likes_unique s \<Longrightarrow> ?thesis" by (simp add: update_thread_def)
next
  case (Some thread)
  assume inv: "likes_unique s"
  then have "list_all (\<lambda>t. likes_distinct (t_likes t)) (threads s)"
    by (simp add: likes_unique_def)
  then have "likes_distinct (t_likes thread)"
    using Some by (rule list_all_find)
  then show ?thesis
    using inv Some
    by (auto simp: likes_unique_def update_thread_def Let_def list_all_update_first
          split: option.splits)
qed

lemma likes_unique_delete_thread:
  "likes_unique s \<Longrightarrow> likes_unique (snd (delete_thread s actor tid))"
proof (cases "find (\<lambda>t. t_id t = tid \<and> t_isActive t) (threads s)")
  case None
  then show "likes_unique s \<Longrightarrow> ?thesis" by (simp add: delete_thread_def)
next
  case (Some thread)
  assume inv: "likes_unique s"
  then have "list_all (\<lambda>t. likes_distinct (t_likes t)) (threads s)"
    by (simp add: likes_unique_def)
  then have "likes_distinct (t_likes thread)"
    using Some by (rule list_all_find)
  then show ?thesis
    using inv Some
    by (auto simp: likes_unique_def delete_thread_def Let_def list_all_update_first
          list_all_findByIdAndUpdate split: option.splits)
qed

section \<open>Who may change a thread or a post\<close>

lemma update_thread_forbidden:
  assumes "find (\<lambda>t. t_id t = tid \<and> t_isActive t) (threads s) = Some thread"
  shows "(status (fst (update_thread s actor tid title content tags)) = 403)
           = (\<not> canMutate actor (t_author thread))"
    and "\<not> canMutate actor (t_author thread) \<Longrightarrow>
           snd (update_thread s actor tid title content tags) = s"
  using assms
  by (simp_all add: update_thread_def canMutate_def Let_def reject_def reply_def server_error_def
        split: option.splits)

lemma delete_thread_forbidden:
  assumes "find (\<lambda>t. t_id t = tid \<and> t_isActive t) (threads s) = Some thread"
  shows "(status (fst (delete_thread s actor tid)) = 403) = (\<not> canMutate actor (t_author thread))"
    and "\<not> canMutate actor (t_author thread) \<Longrightarrow> snd (delete_thread s actor tid) = s"
  using assms
  by (simp_all add: delete_thread_def canMutate_def Let_def reject_def reply_message_def
        server_error_def)

lemma delete_post_forbidden:
  assumes "find (\<lambda>p. p_id p = pid \<and> p_isActive p) (posts s) = Some post"
  shows "(status (fst (delete_post s actor pid)) = 403) = (\<not> canMutate actor (p_author post))"
    and "\<not> canMutate actor (p_author post) \<Longrightarrow> snd (delete_post s actor pid) = s"
  using assms
  by (simp_all add: delete_post_def canMutate_def Let_def reject_def reply_message_def
        server_error_def split: option.splits)

lemma update_post_forbidden:
  assumes "find (\<lambda>p. p_id p = pid \<and> p_isActive p) (posts s) = Some post"
  shows "content \<noteq> [] \<Longrightarrow>
           (status (fst (update_post s actor now pid content)) = 403) = (u_id actor \<noteq> p_author post)"
    and "u_id actor \<noteq> p_author post \<Longrightarrow> snd (update_post s actor now pid content) = s"
  using assms
  by (auto simp: update_post_def Let_def reject_def reply_def server_error_def
        split: option.splits)

section \<open>The claims\<close>

text \<open>
  Claim C1. A successful soft-delete of an active post finds the post and its thread,
  and afterwards the thread is the same document with \<open>replyCount\<close> one less, the
  \<open>lastReply\<close> of every thread keeps its value, the post's author has \<open>postCount\<close>
  one less, the category of the thread has \<open>postCount\<close> one less, and every other
  thread, user and category is as it was.
\<close>

theorem delete_post_counter_updates:
  assumes "status (fst (delete_post s actor pid)) = 200"
  shows "\<exists>post thread.
           find (\<lambda>p. p_id p = pid \<and> p_isActive p) (posts s) = Some post
         \<and> findById t_id (p_thread post) (threads s) = Some thread
         \<and> findById t_id (p_thread post) (threads (snd (delete_post s actor pid)))
             = Some (thread\<lparr>t_replyCount := t_replyCount thread - 1\<rparr>)
         \<and> (\<forall>j. j \<noteq> p_thread post \<longrightarrow>
               findById t_id j (threads (snd (delete_post s actor pid))) = findById t_id j (threads s))
         \<and> map t_lastReply (threads (snd (delete_post s actor pid))) = map t_lastReply (threads s)
         \<and> (\<forall>i. findById u_id i (users (snd (delete_post s actor pid)))
               = (if i = p_author post
                  then map_option (\<lambda>u. u\<lparr>u_postCount := u_postCount u - 1\<rparr>) (findById u_id i (users s))
                  else findById u_id i (users s)))
         \<and> (\<forall>c. findById c_id c (categories (snd (delete_post s actor pid)))
               = (if c = t_category thread
                  then map_option (\<lambda>c. c\<lparr>c_postCount := c_postCount c - 1\<rparr>)
                         (findById c_id c (categories s))
                  else findById c_id c (categories s)))"
proof -
  obtain post thread where
    p: "find (\<lambda>p. p_id p = pid \<and> p_isActive p) (posts s) = Some post" and
    t: "findById t_id (p_thread post) (threads s) = Some thread" and
    s': "snd (delete_post s actor pid) =
           s\<lparr>posts := update_first (\<lambda>p. p_id p = pid \<and> p_isActive p)
                        (\<lambda>p. post\<lparr>p_isActive := False\<rparr>) (posts s),
             threads := findByIdAndUpdate t_id (t_id thread)
                          (\<lambda>t. t\<lparr>t_replyCount := t_replyCount t - 1\<rparr>) (threads s),
             users := findByIdAndUpdate u_id (p_author post)
                          (\<lambda>u. u\<lparr>u_postCount := u_postCount u - 1\<rparr>) (users s),
             categories := findByIdAndUpdate c_id (t_category thread)
                          (\<lambda>c. c\<lparr>c_postCount := c_postCount c - 1\<rparr>) (categories s)\<rparr>"
    using delete_post_deleted [OF pair_fst_snd assms] by blast
  have tid: "t_id thread = p_thread post"
    using t by (rule findById_id)
  show ?thesis
    using p t by (simp add: s' tid findById_update map_findByIdAndUpdate)
qed

theorem delete_post_counter_updates_witness:
  "status (fst (delete_post forum user_B 30)) = 200
   \<and> map_option t_replyCount (findById t_id 20 (threads forum)) = Some 1
   \<and> map_option t_replyCount (findById t_id 20 (threads (snd (delete_post forum user_B 30)))) = Some 0
   \<and> map_option t_lastReply (findById t_id 20 (threads (snd (delete_post forum user_B 30))))
       = map_option t_lastReply (findById t_id 20 (threads forum))
   \<and> map_option u_postCount (findById u_id 2 (users (snd (delete_post forum user_B 30)))) = Some 0
   \<and> map_option c_postCount (findById c_id 10 (categories (snd (delete_post forum user_B 30)))) = Some 0"
proof -
  have h: "status (fst (delete_post forum user_B 30)) = 200"
    by (simp add: delete_post_def valid_defs forum_defs store_defs)
  show ?thesis
    using h delete_post_counter_updates [OF h]
    by (simp add: delete_post_def valid_defs forum_defs store_defs)
qed

text \<open>
  Claim C3. After a successful post creation on a thread followed by a successful
  soft-delete of the post just created, the thread's \<open>replyCount\<close> is what it was
  before the two requests.
\<close>

theorem create_then_delete_replyCount:
  assumes "status (fst (create_post s actor new_id now content (Some tid) parent)) = 201"
    and "status (fst (delete_post (snd (create_post s actor new_id now content (Some tid) parent))
                        deleter new_id)) = 200"
  shows "\<exists>thread. findById t_id tid (threads s) = Some thread
           \<and> map_option t_replyCount
               (findById t_id tid
                  (threads (snd (delete_post
                     (snd (create_post s actor new_id now content (Some tid) parent))
                     deleter new_id))))
             = Some (t_replyCount thread)"
proof -
  let ?s1 = "snd (create_post s actor new_id now content (Some tid) parent)"
  let ?post = "\<lparr>p_id = new_id, p_content = content, p_author = u_id actor,
                 p_thread = tid, p_parentPost = parent,
                 p_isActive = True, p_likes = [], p_isEdited = False,
                 p_editedAt = None, p_editHistory = [], p_createdAt = now\<rparr>"
  obtain th where
    th: "find (\<lambda>t. t_id t = tid \<and> t_isActive t) (threads s) = Some th" and
    fresh: "new_id \<notin> set (map p_id (posts s))" and
    s1: "?s1 = s\<lparr>posts := posts s @ [?post],
                  threads := findByIdAndUpdate t_id tid
                    (\<lambda>t. t\<lparr>t_replyCount := t_replyCount t + 1,
                           t_lastReply := \<lparr>lr_author = Some (u_id actor), lr_createdAt = now\<rparr>\<rparr>)
                    (threads s),
                  users := findByIdAndUpdate u_id (u_id actor)
                    (\<lambda>u. u\<lparr>u_postCount := u_postCount u + 1\<rparr>) (users s),
                  categories := findByIdAndUpdate c_id (t_category th)
                    (\<lambda>c. c\<lparr>c_postCount := c_postCount c + 1\<rparr>) (categories s)\<rparr>"
    using create_post_created [OF pair_fst_snd assms(1)] by auto
  obtain thread where thread: "findById t_id tid (threads s) = Some thread"
    using find_active_findById [OF th] by blast
  have loaded: "find (\<lambda>p. p_id p = new_id \<and> p_isActive p) (posts ?s1) = Some ?post"
    using fresh by (simp add: s1 find_append_split find_None_ids)
  obtain post' thread' where
    p': "find (\<lambda>p. p_id p = new_id \<and> p_isActive p) (posts ?s1) = Some post'" and
    t': "findById t_id (p_thread post') (threads ?s1) = Some thread'" and
    s2: "threads (snd (delete_post ?s1 deleter new_id)) =
           findByIdAndUpdate t_id (t_id thread')
             (\<lambda>t. t\<lparr>t_replyCount := t_replyCount t - 1\<rparr>) (threads ?s1)"
    using delete_post_deleted [OF pair_fst_snd assms(2)] by force
  have "post' = ?post" using p' loaded by simp
  then have pt: "p_thread post' = tid" by simp
  have tid': "t_id thread' = tid" using findById_id [OF t'] pt by simp
  have created: "findById t_id tid (threads ?s1) =
      Some (thread\<lparr>t_replyCount := t_replyCount thread + 1,
                    t_lastReply := \<lparr>lr_author = Some (u_id actor), lr_createdAt = now\<rparr>\<rparr>)"
    using thread by (simp add: s1 findById_update)
  have "findById t_id tid (threads (snd (delete_post ?s1 deleter new_id))) =
      map_option (\<lambda>t. t\<lparr>t_replyCount := t_replyCount t - 1\<rparr>) (findById t_id tid (threads ?s1))"
    by (simp add: s2 tid' findById_update)
  then show ?thesis
    using thread by (simp add: created)
qed

theorem create_then_delete_replyCount_witness:
  "status (fst (create_post forum user_A 31 9 text_hello (Some 20) None)) = 201
   \<and> status (fst (delete_post (snd (create_post forum user_A 31 9 text_hello (Some 20) None))
                    user_A 31)) = 200
   \<and> map_option t_replyCount (findById t_id 20 (threads forum)) = Some 1
   \<and> map_option t_replyCount (findById t_id 20
        (threads (snd (create_post forum user_A 31 9 text_hello (Some 20) None)))) = Some 2
   \<and> map_option t_replyCount (findById t_id 20
        (threads (snd (delete_post (snd (create_post forum user_A 31 9 text_hello (Some 20) None))
                         user_A 31)))) = Some 1"
proof -
  have h1: "status (fst (create_post forum user_A 31 9 text_hello (Some 20) None)) = 201"
    by (simp add: create_post_def valid_defs Let_def forum_defs store_defs)
  have h2: "status (fst (delete_post (snd (create_post forum user_A 31 9 text_hello (Some 20) None))
                    user_A 31)) = 200"
    by (simp add: create_post_def delete_post_def valid_defs Let_def forum_defs store_defs)
  show ?thesis
    using h1 h2 create_then_delete_replyCount [OF h1 h2]
    by (simp add: create_post_def valid_defs Let_def forum_defs store_defs)
qed

text \<open>
  Claim C5. After a successful thread creation in category \<open>C\<close>, the category \<open>C\<close> is
  the same document with \<open>threadCount\<close> one more (its \<open>postCount\<close> as before), every
  other category is as it was, the creating user has \<open>postCount\<close> one more and every
  other user is as it was.
\<close>

theorem create_thread_counters:
  assumes "status (fst (create_thread s actor new_id now title content (Some C) tags)) = 201"
  shows "\<exists>cat. findById c_id C (categories s) = Some cat
         \<and> findById c_id C (categories (snd (create_thread s actor new_id now title content (Some C) tags)))
             = Some (cat\<lparr>c_threadCount := c_threadCount cat + 1\<rparr>)
         \<and> (\<forall>c. c \<noteq> C \<longrightarrow>
              findById c_id c (categories (snd (create_thread s actor new_id now title content (Some C) tags)))
                = findById c_id c (categories s))
         \<and> (\<forall>i. findById u_id i (users (snd (create_thread s actor new_id now title content (Some C) tags)))
               = (if i = u_id actor
                  then map_option (\<lambda>u. u\<lparr>u_postCount := u_postCount u + 1\<rparr>) (findById u_id i (users s))
                  else findById u_id i (users s)))"
proof -
  obtain cat0 where
    c: "find (\<lambda>c. c_id c = C \<and> c_isActive c) (categories s) = Some cat0" and
    cats: "categories (snd (create_thread s actor new_id now title content (Some C) tags)) =
             findByIdAndUpdate c_id C (\<lambda>c. c\<lparr>c_threadCount := c_threadCount c + 1\<rparr>) (categories s)" and
    us: "users (snd (create_thread s actor new_id now title content (Some C) tags)) =
             findByIdAndUpdate u_id (u_id actor) (\<lambda>u. u\<lparr>u_postCount := u_postCount u + 1\<rparr>) (users s)"
    using create_thread_created [OF pair_fst_snd assms] by force
  obtain cat where "findById c_id C (categories s) = Some cat"
    using find_active_findById [OF c] by blast
  then show ?thesis
    by (simp add: cats us findById_update)
qed

theorem create_thread_counters_witness:
  "status (fst (create_thread forum user_B 22 9 text_News_padded text_hello (Some 10) None)) = 201
   \<and> map_option c_threadCount (findById c_id 10 (categories forum)) = Some 2
   \<and> map_option c_threadCount (findById c_id 10
        (categories (snd (create_thread forum user_B 22 9 text_News_padded text_hello (Some 10) None)))) = Some 3
   \<and> findById c_id 11 (categories (snd (create_thread forum user_B 22 9 text_News_padded text_hello (Some 10) None)))
       = findById c_id 11 (categories forum)
   \<and> map_option u_postCount (findById u_id 2
        (users (snd (create_thread forum user_B 22 9 text_News_padded text_hello (Some 10) None)))) = Some 2"
proof -
  have h: "status (fst (create_thread forum user_B 22 9 text_News_padded text_hello (Some 10) None)) = 201"
    by (simp add: create_thread_def trim_def is_space_def valid_defs Let_def forum_defs
          store_defs)
  show ?thesis
    using h create_thread_counters [OF h]
    by (simp add: forum_defs store_defs)
qed

text \<open>
  A request without content on the locked thread is answered 400, not 403: the route
  checks the body before it reads the thread.
\<close>

theorem create_post_locked_counterexample:
  "findById t_id 21 (threads forum) = Some thread_locked
   \<and> t_isLocked thread_locked
   \<and> create_post forum user_B 31 9 [] (Some 21) None
       = (reject 400 ''Content and thread ID are required'', forum)"
  by (simp add: create_post_def findById_def forum_defs)

text \<open>
  Claim C6, as amended. When every thread of the identifier is locked (identifiers are
  unique in the store, so this is the thread of the request), a request to create a
  post on it leaves the store as it was: no post document, no counter and no
  \<open>lastReply\<close> change. It is answered 400 when it has no content, else 404 when no
  active thread has the identifier, else 403.
\<close>

theorem create_post_locked:
  assumes "list_all (\<lambda>t. t_id t = tid \<longrightarrow> t_isLocked t) (threads s)"
  shows "snd (create_post s actor new_id now content (Some tid) parent) = s
       \<and> status (fst (create_post s actor new_id now content (Some tid) parent))
           = (if content = [] then 400
              else if find (\<lambda>t. t_id t = tid \<and> t_isActive t) (threads s) = None then 404
              else 403)"
proof (cases "find (\<lambda>t. t_id t = tid \<and> t_isActive t) (threads s)")
  case None
  then show ?thesis by (simp add: create_post_def reject_def)
next
  case (Some thread)
  have "thread \<in> set (threads s) \<and> t_id thread = tid"
    using find_Some_P [OF Some] by simp
  then have "t_isLocked thread"
    using assms by (simp add: list_all_iff)
  then show ?thesis using Some by (simp add: create_post_def reject_def)
qed

theorem create_post_locked_witness:
  "list_all (\<lambda>t. t_id t = 21 \<longrightarrow> t_isLocked t) (threads forum)
   \<and> status (fst (create_post forum user_B 31 9 text_hello (Some 21) None)) = 403
   \<and> snd (create_post forum user_B 31 9 text_hello (Some 21) None) = forum
   \<and> status (fst (create_post forum user_B 31 9 [] (Some 21) None)) = 400
   \<and> snd (create_post forum user_B 31 9 [] (Some 21) None) = forum"
proof -
  have l: "list_all (\<lambda>t. t_id t = 21 \<longrightarrow> t_isLocked t) (threads forum)"
    by (simp add: forum_defs)
  show ?thesis
    using l create_post_locked [OF l, of user_B 31 9 text_hello None]
      create_post_locked [OF l, of user_B 31 9 "[]" None]
    by (simp add: forum_defs)
qed

text \<open>
  Claim C7. For a page \<open>p \<ge> 1\<close> and a limit \<open>l \<ge> 1\<close>, the pagination object of \<open>n\<close>
  matching items has \<open>hasNext = (p * l < n)\<close>, \<open>hasPrev = (p > 1)\<close>,
  \<open>totalPages = \<lceil>n / l\<rceil>\<close> and \<open>currentPage = p\<close>; the thread list answers 200 with
  that object for the number of threads matching the query, and so does the list of the
  posts of an active thread for the number of its active posts.
\<close>

theorem list_pagination:
  assumes "1 \<le> p" and "1 \<le> l"
  shows "spec_pagination p l n (paginate p l n)
       \<and> status (fst (get_threads ts s actor (Some p) (Some l) cat search sort_q)) = 200
       \<and> (\<exists>pg. map_option page_pagination
                 (payload (fst (get_threads ts s actor (Some p) (Some l) cat search sort_q))) = Some pg
            \<and> totalItems pg =
                int (length (filter (\<lambda>t. t_isActive t
                     \<and> (case cat of None \<Rightarrow> True | Some c \<Rightarrow> t_category t = c)
                     \<and> (if search = [] then True else ts search t)) (threads s)))
            \<and> spec_pagination p l (totalItems pg) pg)
       \<and> (find (\<lambda>t. t_id t = tid \<and> t_isActive t) (threads s) \<noteq> None \<longrightarrow>
            status (fst (get_thread_posts s actor tid (Some p) (Some l))) = 200
          \<and> (\<exists>pg. map_option page_pagination
                 (payload (fst (get_thread_posts s actor tid (Some p) (Some l)))) = Some pg
               \<and> totalItems pg =
                   int (length (filter (\<lambda>p. p_thread p = tid \<and> p_isActive p) (posts s)))
               \<and> spec_pagination p l (totalItems pg) pg))"
proof -
  have spec: "\<And>k. spec_pagination p l (totalItems (paginate p l k)) (paginate p l k)"
    using assms(2) by (simp only: totalItems_paginate paginate_spec)
  have a: "spec_pagination p l n (paginate p l n)"
    using assms(2) by (rule paginate_spec)
  have b: "find (\<lambda>t. t_id t = tid \<and> t_isActive t) (threads s) \<noteq> None \<longrightarrow>
            status (fst (get_thread_posts s actor tid (Some p) (Some l))) = 200
          \<and> (\<exists>pg. map_option page_pagination
                 (payload (fst (get_thread_posts s actor tid (Some p) (Some l)))) = Some pg
               \<and> totalItems pg =
                   int (length (filter (\<lambda>p. p_thread p = tid \<and> p_isActive p) (posts s)))
               \<and> spec_pagination p l (totalItems pg) pg)"
    using get_thread_posts_page [OF assms, of tid s _ actor] spec totalItems_paginate
    by fastforce
  show ?thesis
    using a b get_threads_page [OF assms, of ts s actor cat search sort_q] spec totalItems_paginate
    by fastforce
qed

theorem list_pagination_witness:
  "(1::int) \<le> 2 \<and> (1::int) \<le> 1
   \<and> spec_pagination 2 1 3 (paginate 2 1 3)
   \<and> hasNext (paginate 2 1 3) \<and> hasPrev (paginate 2 1 3) \<and> totalPages (paginate 2 1 3) = 3
   \<and> map_option page_pagination
       (payload (fst (get_threads (\<lambda>q t. True) forum None (Some 2) (Some 1) None [] [])))
       = Some \<lparr>currentPage = 2, totalPages = 2, totalItems = 2, hasNext = False, hasPrev = True\<rparr>"
proof -
  have p: "(1::int) \<le> 2" and l: "(1::int) \<le> 1" by simp_all
  show ?thesis
    using list_pagination [OF p l, of 3 "\<lambda>q t. True" forum None None "[]" "[]" 20]
    by (auto simp: spec_pagination_def reply_def forum_defs)
qed

text \<open>
  Claim C10. A successful soft-delete of a post takes one from the \<open>postCount\<close> of the
  post's author. When the actor is not the author, the actor is an administrator and
  the actor's own user document is unchanged.
\<close>

theorem delete_post_charges_author:
  assumes "status (fst (delete_post s actor pid)) = 200"
  shows "\<exists>post. find (\<lambda>p. p_id p = pid \<and> p_isActive p) (posts s) = Some post
       \<and> findById u_id (p_author post) (users (snd (delete_post s actor pid)))
           = map_option (\<lambda>u. u\<lparr>u_postCount := u_postCount u - 1\<rparr>)
               (findById u_id (p_author post) (users s))
       \<and> (u_id actor \<noteq> p_author post \<longrightarrow>
            u_role actor = ''admin''
          \<and> findById u_id (u_id actor) (users (snd (delete_post s actor pid)))
              = findById u_id (u_id actor) (users s))"
proof -
  obtain post where
    p: "find (\<lambda>p. p_id p = pid \<and> p_isActive p) (posts s) = Some post" and
    c: "canMutate actor (p_author post)" and
    us: "users (snd (delete_post s actor pid)) =
           findByIdAndUpdate u_id (p_author post)
             (\<lambda>u. u\<lparr>u_postCount := u_postCount u - 1\<rparr>) (users s)"
    using delete_post_deleted [OF pair_fst_snd assms] by force
  show ?thesis
    using p c by (auto simp: us findById_update canMutate_def)
qed

theorem delete_post_charges_author_witness:
  "status (fst (delete_post forum user_admin 30)) = 200
   \<and> u_role user_admin = ''admin'' \<and> u_id user_admin \<noteq> p_author post_P
   \<and> find (\<lambda>p. p_id p = 30 \<and> p_isActive p) (posts forum) = Some post_P
   \<and> map_option u_postCount (findById u_id 2 (users forum)) = Some 1
   \<and> map_option u_postCount (findById u_id 2 (users (snd (delete_post forum user_admin 30)))) = Some 0
   \<and> findById u_id 3 (users (snd (delete_post forum user_admin 30))) = findById u_id 3 (users forum)"
proof -
  have h: "status (fst (delete_post forum user_admin 30)) = 200"
    by (simp add: delete_post_def valid_defs forum_defs store_defs)
  show ?thesis
    using h delete_post_charges_author [OF h]
    by (simp add: delete_post_def valid_defs forum_defs store_defs)
qed

text \<open>
  On a thread that holds two likes of user B, two like requests of user B leave one
  like: the first removes both, the second adds one.
\<close>

theorem like_toggle_twice_counterexample:
  "findById t_id 23 (threads forum_twice) = Some thread_twice
   \<and> map like_user (t_likes thread_twice) = [2, 2]
   \<and> map_option (map like_user \<circ> t_likes)
       (findById t_id 23
          (threads (snd (like_thread (snd (like_thread forum_twice user_B 5 23)) user_B 6 23))))
       = Some [2]"
  by (simp add: like_thread_def toggle_like_def Let_def valid_defs forum_defs store_defs)

text \<open>
  Claim C4, as amended. Two like requests in a row by the same user on an active
  thread, or on an active post, leave the likes array with the same set of users; it
  has the same length when it held at most one like of that user.
\<close>

theorem like_toggle_twice:
  "(find (\<lambda>t. t_id t = tid \<and> t_isActive t) (threads s) = Some thread \<longrightarrow>
      (\<exists>thread'. find (\<lambda>t. t_id t = tid \<and> t_isActive t)
                   (threads (snd (like_thread (snd (like_thread s actor n1 tid)) actor n2 tid)))
                   = Some thread'
          \<and> likers (t_likes thread') = likers (t_likes thread)
          \<and> (length (likes_of (u_id actor) (t_likes thread)) \<le> 1 \<longrightarrow>
               length (t_likes thread') = length (t_likes thread))))
   \<and> (find (\<lambda>p. p_id p = pid \<and> p_isActive p) (posts s) = Some post \<longrightarrow>
      (\<exists>post'. find (\<lambda>p. p_id p = pid \<and> p_isActive p)
                   (posts (snd (like_post (snd (like_post s actor n1 pid)) actor n2 pid)))
                   = Some post'
          \<and> likers (p_likes post') = likers (p_likes post)
          \<and> (length (likes_of (u_id actor) (p_likes post)) \<le> 1 \<longrightarrow>
               length (p_likes post') = length (p_likes post))))"
  by (simp add: like_thread_twice_loaded like_post_twice_loaded toggle_twice_likers
        toggle_twice_length)

theorem like_toggle_twice_witness:
  "find (\<lambda>t. t_id t = 20 \<and> t_isActive t) (threads forum) = Some thread_T
   \<and> length (likes_of (u_id user_B) (t_likes thread_T)) \<le> 1
   \<and> find (\<lambda>p. p_id p = 30 \<and> p_isActive p) (posts forum) = Some post_P
   \<and> length (likes_of (u_id user_B) (p_likes post_P)) \<le> 1
   \<and> map_option (\<lambda>t. map like_user (t_likes t))
       (find (\<lambda>t. t_id t = 20 \<and> t_isActive t)
          (threads (snd (like_thread (snd (like_thread forum user_B 5 20)) user_B 6 20)))) = Some [2]
   \<and> map_option (\<lambda>p. map like_user (p_likes p))
       (find (\<lambda>p. p_id p = 30 \<and> p_isActive p)
          (posts (snd (like_post (snd (like_post forum user_B 5 30)) user_B 6 30)))) = Some [1]"
proof -
  have t: "find (\<lambda>t. t_id t = 20 \<and> t_isActive t) (threads forum) = Some thread_T"
    by (simp add: forum_defs)
  have p: "find (\<lambda>p. p_id p = 30 \<and> p_isActive p) (posts forum) = Some post_P"
    by (simp add: forum_defs)
  have dt: "length (likes_of (u_id user_B) (t_likes thread_T)) \<le> 1"
    and dp: "length (likes_of (u_id user_B) (p_likes post_P)) \<le> 1"
    by (simp_all add: likes_of_def forum_defs)
  show ?thesis
    using t p dt dp like_toggle_twice [of 20 forum thread_T user_B 5 6 30 post_P]
    by (simp add: like_thread_def like_post_def toggle_like_def Let_def valid_defs forum_defs)
qed

text \<open>
  Claim C8. Every route of threads and posts keeps the invariant that a likes array
  holds at most one like of each user: when it holds of every thread and post of the
  store before the request, it holds after it.
\<close>

theorem likes_unique_preserved:
  assumes "likes_unique s"
  shows "likes_unique (snd (like_thread s actor now tid))
       \<and> likes_unique (snd (like_post s actor now pid))
       \<and> likes_unique (snd (create_thread s actor new_id now title content cq tags))
       \<and> likes_unique (snd (update_thread s actor tid title content tags))
       \<and> likes_unique (snd (delete_thread s actor tid))
       \<and> likes_unique (snd (get_thread s reader tid))
       \<and> likes_unique (snd (get_threads ts s reader pq lq cat search sort_q))
       \<and> likes_unique (snd (create_post s actor new_id now content tq parent))
       \<and> likes_unique (snd (update_post s actor now pid content))
       \<and> likes_unique (snd (delete_post s actor pid))
       \<and> likes_unique (snd (get_thread_posts s reader tid pq lq))"
  using assms
  by (simp only: likes_unique_like_thread likes_unique_like_post likes_unique_create_thread
        likes_unique_update_thread likes_unique_delete_thread likes_unique_get_thread
        likes_unique_get_threads likes_unique_create_post likes_unique_update_post
        likes_unique_delete_post likes_unique_get_thread_posts simp_thms)

theorem likes_unique_preserved_witness:
  "likes_unique forum
   \<and> likes_unique (snd (like_thread forum user_A 5 20))
   \<and> map_option (\<lambda>t. map like_user (t_likes t)) (findById t_id 20 (threads (snd (like_thread forum user_A 5 20))))
       = Some [2, 1]
   \<and> likes_unique (snd (like_post forum user_A 5 30))
   \<and> map_option (\<lambda>p. map like_user (p_likes p)) (findById p_id 30 (posts (snd (like_post forum user_A 5 30))))
       = Some []"
proof -
  have h: "likes_unique forum"
    by (simp add: likes_unique_def likes_distinct_def forum_defs)
  show ?thesis
    using h likes_unique_preserved [OF h, of user_A 5 20 30]
    by (simp add: like_thread_def like_post_def toggle_like_def Let_def valid_defs forum_defs
          store_defs)
qed

text \<open>
  Claim C9. The thread detail, the list of the posts of a thread and the thread list
  give, with and without an authenticated reader, the same store afterwards (the detail
  counts its view in both) and responses that are equal once every \<open>hasLiked\<close> is
  blanked; the thread list has no such field and answers the same.
\<close>

theorem read_routes_reader_independent:
  "snd (get_thread s (Some u) tid) = snd (get_thread s None tid)
   \<and> without_hasLiked (fst (get_thread s (Some u) tid)) = without_hasLiked (fst (get_thread s None tid))
   \<and> snd (get_thread_posts s (Some u) tid pq lq) = snd (get_thread_posts s None tid pq lq)
   \<and> without_hasLiked_page (fst (get_thread_posts s (Some u) tid pq lq))
       = without_hasLiked_page (fst (get_thread_posts s None tid pq lq))
   \<and> get_threads ts s (Some u) pq lq cat search sort_q = get_threads ts s None pq lq cat search sort_q"
proof (intro conjI)
  show "snd (get_thread s (Some u) tid) = snd (get_thread s None tid)"
    by (simp add: get_thread_def Let_def split: option.splits)
  show "without_hasLiked (fst (get_thread s (Some u) tid)) = without_hasLiked (fst (get_thread s None tid))"
    by (simp add: get_thread_def Let_def without_hasLiked_def reply_def reject_def
          split: option.splits)
  show "snd (get_thread_posts s (Some u) tid pq lq) = snd (get_thread_posts s None tid pq lq)"
    by (simp add: get_thread_posts_def Let_def split: option.splits)
  show "without_hasLiked_page (fst (get_thread_posts s (Some u) tid pq lq))
       = without_hasLiked_page (fst (get_thread_posts s None tid pq lq))"
    by (simp add: get_thread_posts_def Let_def without_hasLiked_page_def reply_def reject_def
          server_error_def split: option.splits)
  show "get_threads ts s (Some u) pq lq cat search sort_q = get_threads ts s None pq lq cat search sort_q"
    by (simp add: get_threads_def)
qed

theorem read_routes_reader_independent_witness:
  "map_option hasLiked (payload (fst (get_thread forum (Some user_B) 20))) = Some True
   \<and> map_option hasLiked (payload (fst (get_thread forum None 20))) = Some False
   \<and> without_hasLiked (fst (get_thread forum (Some user_B) 20))
       = without_hasLiked (fst (get_thread forum None 20))
   \<and> map_option t_views (findById t_id 20 (threads (snd (get_thread forum (Some user_B) 20)))) = Some 1
   \<and> map_option t_views (findById t_id 20 (threads (snd (get_thread forum None 20)))) = Some 1"
  using read_routes_reader_independent [of forum user_B 20]
  by (simp add: get_thread_def has_liked_def Let_def forum_defs store_defs)

text \<open>
  The edit of a post is ``author only'': an administrator who did not write the post is
  answered 403 and the post is not changed.
\<close>

theorem post_edit_admin_counterexample:
  "u_role user_admin = ''admin''
   \<and> canMutate user_admin (p_author post_P)
   \<and> u_id user_admin \<noteq> p_author post_P
   \<and> findById p_id 30 (posts forum) = Some post_P
   \<and> p_isActive post_P
   \<and> update_post forum user_admin 9 30 text_News
       = (reject 403 ''Not authorized to edit this post'', forum)"
  by (simp add: canMutate_def update_post_def findById_def forum_defs)

text \<open>
  Claim C2, as amended. On an active thread, the edit and the soft-delete are answered
  403 exactly when the actor is neither the author nor an administrator; on an active
  post the soft-delete likewise, and the edit (with a content) exactly when the actor is
  not the author. An actor so refused leaves the store as it was.
\<close>

theorem mutation_authorization:
  "(find (\<lambda>t. t_id t = tid \<and> t_isActive t) (threads s) = Some thread \<longrightarrow>
       (status (fst (update_thread s actor tid title content tags)) = 403)
          = (\<not> canMutate actor (t_author thread))
     \<and> (status (fst (delete_thread s actor tid)) = 403) = (\<not> canMutate actor (t_author thread))
     \<and> (\<not> canMutate actor (t_author thread) \<longrightarrow>
          snd (update_thread s actor tid title content tags) = s
        \<and> snd (delete_thread s actor tid) = s))
   \<and> (find (\<lambda>p. p_id p = pid \<and> p_isActive p) (posts s) = Some post \<longrightarrow>
       (status (fst (delete_post s actor pid)) = 403) = (\<not> canMutate actor (p_author post))
     \<and> (\<not> canMutate actor (p_author post) \<longrightarrow> snd (delete_post s actor pid) = s)
     \<and> (body \<noteq> [] \<longrightarrow>
          (status (fst (update_post s actor now pid body)) = 403) = (u_id actor \<noteq> p_author post))
     \<and> (u_id actor \<noteq> p_author post \<longrightarrow> snd (update_post s actor now pid body) = s))"
  using update_thread_forbidden [where tid = tid and s = s and thread = thread and actor = actor
      and title = title and content = content and tags = tags]
    delete_thread_forbidden [where tid = tid and s = s and thread = thread and actor = actor]
    delete_post_forbidden [where pid = pid and s = s and post = post and actor = actor]
    update_post_forbidden [where pid = pid and s = s and post = post and actor = actor
      and content = body and now = now]
  by blast

theorem mutation_authorization_witness:
  "find (\<lambda>t. t_id t = 20 \<and> t_isActive t) (threads forum) = Some thread_T
   \<and> find (\<lambda>p. p_id p = 30 \<and> p_isActive p) (posts forum) = Some post_P
   \<and> \<not> canMutate user_B (t_author thread_T)
   \<and> status (fst (update_thread forum user_B 20 text_News [] None)) = 403
   \<and> snd (update_thread forum user_B 20 text_News [] None) = forum
   \<and> status (fst (delete_thread forum user_B 20)) = 403
   \<and> canMutate user_admin (p_author post_P)
   \<and> status (fst (delete_post forum user_admin 30)) \<noteq> 403
   \<and> \<not> canMutate user_A (p_author post_P)
   \<and> status (fst (delete_post forum user_A 30)) = 403
   \<and> snd (delete_post forum user_A 30) = forum
   \<and> status (fst (update_post forum user_A 9 30 text_News)) = 403
   \<and> status (fst (update_post forum user_B 9 30 text_News)) \<noteq> 403"
proof -
  have t: "find (\<lambda>t. t_id t = 20 \<and> t_isActive t) (threads forum) = Some thread_T"
    by (simp add: forum_defs)
  have p: "find (\<lambda>p. p_id p = 30 \<and> p_isActive p) (posts forum) = Some post_P"
    by (simp add: forum_defs)
  have c: "\<not> canMutate user_B (t_author thread_T)" "canMutate user_admin (p_author post_P)"
    "\<not> canMutate user_A (p_author post_P)" "u_id user_A \<noteq> p_author post_P"
    "u_id user_B = p_author post_P"
    by (simp_all add: canMutate_def forum_defs)
  show ?thesis
    using t p c
      mutation_authorization [where tid = 20 and s = forum and thread = thread_T and actor = user_B
        and title = text_News and content = "[]" and tags = None and pid = 30 and post = post_P
        and body = text_News and now = 9]
      mutation_authorization [where tid = 20 and s = forum and thread = thread_T and actor = user_admin
        and title = text_News and content = "[]" and tags = None and pid = 30 and post = post_P
        and body = text_News and now = 9]
      mutation_authorization [where tid = 20 and s = forum and thread = thread_T and actor = user_A
        and title = text_News and content = "[]" and tags = None and pid = 30 and post = post_P
        and body = text_News and now = 9]
    by (simp add: text_News_def)
qed

end
